theory Spec2Isabelle
  imports Main
begin

section \<open>JavaScript values and strings\<close>

text \<open>
  The embedding follows the later revision of \<^verbatim>\<open>swarm-ui/src/App.tsx\<close> (the
  component with \<^verbatim>\<open>buildUrl\<close> and a poll budget of 120). Values that come from
  \<^verbatim>\<open>JSON.parse\<close> are untyped at run time, so they are kept as a datatype of
  JavaScript values. Numbers are integers here: no property below reads a
  fractional value.
\<close>

datatype js =
    JUndefined
  | JNull
  | JBool bool
  | JNum int
  | JStr string
  | JArr "js list"
  | JObj "(string \<times> js) list"

text \<open>Truthiness, as used by \<^verbatim>\<open>a || b\<close>.\<close>

fun truthy :: "js \<Rightarrow> bool" where
  "truthy JUndefined = False"
| "truthy JNull = False"
| "truthy (JBool b) = b"
| "truthy (JNum n) = (n \<noteq> 0)"
| "truthy (JStr s) = (s \<noteq> [])"
| "truthy (JArr xs) = True"
| "truthy (JObj kvs) = True"

definition js_or :: "js \<Rightarrow> js \<Rightarrow> js" where
  "js_or a b = (if truthy a then a else b)"

text \<open>
  \<^verbatim>\<open>d?.k\<close> for the property names the program reads (\<^verbatim>\<open>task\<close>,
  \<^verbatim>\<open>level\<close>, \<^verbatim>\<open>message\<close>, \<^verbatim>\<open>error\<close>, \<^verbatim>\<open>status\<close>,
  \<^verbatim>\<open>has_output\<close>, \<^verbatim>\<open>output_preview\<close>, \<^verbatim>\<open>transcript_preview\<close>,
  \<^verbatim>\<open>run_id\<close>): none of them is defined on a prototype, so every value
  that is not an object holding the key yields \<^verbatim>\<open>undefined\<close>.
\<close>

fun opt_field :: "js \<Rightarrow> string \<Rightarrow> js" where
  "opt_field (JObj kvs) k = (case map_of kvs k of Some v \<Rightarrow> v | None \<Rightarrow> JUndefined)"
| "opt_field d k = JUndefined"

text \<open>Decimal text of a natural number, for the status code in \<^verbatim>\<open>`HTTP ${r.status}`\<close>.\<close>

definition digit :: "nat \<Rightarrow> char" where
  "digit n = ''0123456789'' ! n"

function dec :: "nat \<Rightarrow> string" where
  "dec n = (if n < 10 then [digit n] else dec (n div 10) @ [digit (n mod 10)])"
  by pat_completeness auto
termination
  by (relation "measure id") auto

declare dec.simps [simp del]

definition join_comma :: "string list \<Rightarrow> string" where
  "join_comma ss = (case ss of [] \<Rightarrow> [] | s # rest \<Rightarrow> foldl (\<lambda>acc t. acc @ '','' @ t) s rest)"

text \<open>
  A thrown \<^verbatim>\<open>Error\<close> is its message; a computation that may throw returns
  \<open>Inl message\<close> or \<open>Inr value\<close>.
\<close>

type_synonym 'a js_result = "string + 'a"

text \<open>
  Strings are sequences of code units below 256. \<^verbatim>\<open>String.prototype.trim\<close>
  removes white space and line terminators from both ends; in this range they are
  TAB, LF, VT, FF, CR, SPACE and NBSP.
\<close>

definition js_whitespace :: "char \<Rightarrow> bool" where
  "js_whitespace c = (of_char c \<in> {9, 10, 11, 12, 13, 32, 160 :: nat})"

definition trim :: "string \<Rightarrow> string" where
  "trim s = rev (dropWhile js_whitespace (rev (dropWhile js_whitespace s)))"

section \<open>The environment of the component\<close>

text \<open>
  What the browser and the build provide: the \<^verbatim>\<open>VITE_API_BASE\<close> setting,
  \<^verbatim>\<open>JSON.parse\<close> (\<open>Inl\<close> the message of its \<^verbatim>\<open>SyntaxError\<close>),
  \<^verbatim>\<open>new URL(path, base).toString()\<close> (\<open>None\<close> when the constructor throws),
  the \<^verbatim>\<open>EventSource\<close> constructor (\<open>Some message\<close> when it throws on the URL),
  the text the engine prints for a number (\<^verbatim>\<open>Number.prototype.toString\<close>, which
  switches to exponent notation for large values) and the successive readings of
  \<^verbatim>\<open>Date.now()\<close>.
\<close>

record env =
  VITE_API_BASE :: "string option"
  JSON_parse :: "string \<Rightarrow> js js_result"
  URL_resolve :: "string \<Rightarrow> string \<Rightarrow> string option"
  EventSource_throws :: "string \<Rightarrow> string option"
  Number_toString :: "int \<Rightarrow> string"
  Date_now :: "nat \<Rightarrow> int"

text \<open>
  The conversion a template literal applies to an interpolated value. It can throw:
  an object is converted through its \<^verbatim>\<open>toString\<close> and \<^verbatim>\<open>valueOf\<close>; a decoded
  object that has a key \<^verbatim>\<open>toString\<close> hides the method of the prototype behind a
  value that cannot be called, and neither its own nor the inherited
  \<^verbatim>\<open>valueOf\<close> yields a primitive, so the conversion ends in a \<^verbatim>\<open>TypeError\<close>
  (the wording of the message is the engine's). An array joins the texts of its
  elements, \<^verbatim>\<open>null\<close> and \<^verbatim>\<open>undefined\<close> counting as empty, and throws when
  an element does.
\<close>

fun js_to_string :: "env \<Rightarrow> js \<Rightarrow> string js_result"
  and elements_to_strings :: "env \<Rightarrow> js list \<Rightarrow> string list js_result" where
  "js_to_string e JUndefined = Inr ''undefined''"
| "js_to_string e JNull = Inr ''null''"
| "js_to_string e (JBool b) = Inr (if b then ''true'' else ''false'')"
| "js_to_string e (JNum n) = Inr (Number_toString e n)"
| "js_to_string e (JStr s) = Inr s"
| "js_to_string e (JArr xs) =
     (case elements_to_strings e xs of Inl m \<Rightarrow> Inl m | Inr ss \<Rightarrow> Inr (join_comma ss))"
| "js_to_string e (JObj kvs) =
     (if ''toString'' \<in> set (map fst kvs) then Inl ''Cannot convert object to primitive value''
      else Inr ''[object Object]'')"
| "elements_to_strings e [] = Inr []"
| "elements_to_strings e (x # xs) =
     (case (if x = JUndefined \<or> x = JNull then Inr [] else js_to_string e x) of
        Inl m \<Rightarrow> Inl m
      | Inr s \<Rightarrow>
          (case elements_to_strings e xs of Inl m \<Rightarrow> Inl m | Inr ss \<Rightarrow> Inr (s # ss)))"

text \<open>\<^verbatim>\<open>const apiBase = import.meta.env.VITE_API_BASE || '/'\<close>\<close>

definition apiBase :: "env \<Rightarrow> string" where
  "apiBase e = (case VITE_API_BASE e of None \<Rightarrow> ''/'' | Some s \<Rightarrow> if s = [] then ''/'' else s)"

text \<open>\<^verbatim>\<open>function safeParse(s) { try { return JSON.parse(s) } catch { return undefined } }\<close>\<close>

definition try_catch :: "'a js_result \<Rightarrow> (string \<Rightarrow> 'a js_result) \<Rightarrow> 'a js_result" where
  "try_catch body handler = (case body of Inl e \<Rightarrow> handler e | Inr v \<Rightarrow> Inr v)"

definition safeParse :: "env \<Rightarrow> string \<Rightarrow> js js_result" where
  "safeParse e s = try_catch (JSON_parse e s) (\<lambda>_. Inr JUndefined)"

section \<open>buildUrl\<close>

text \<open>\<^verbatim>\<open>path.replace(/^\/+/, '')\<close>\<close>

definition strip_leading_slashes :: "string \<Rightarrow> string" where
  "strip_leading_slashes path = dropWhile (\<lambda>c. c = CHR ''/'') path"

text \<open>\<^verbatim>\<open>apiBase.replace(/\/+$/, '/')\<close>: a trailing run of slashes becomes one slash;
  a string without a trailing slash is unchanged.\<close>

definition collapse_trailing_slashes :: "string \<Rightarrow> string" where
  "collapse_trailing_slashes s =
     (let core = rev (dropWhile (\<lambda>c. c = CHR ''/'') (rev s))
      in if length core < length s then core @ ''/'' else s)"

definition buildUrl :: "(string \<Rightarrow> string \<Rightarrow> string option) \<Rightarrow> string \<Rightarrow> string \<Rightarrow> string" where
  "buildUrl resolve base path =
     (let normalized = strip_leading_slashes path
      in if base = [] \<or> base = ''/'' then ''/'' @ normalized
         else (case resolve normalized base of
                 Some url \<Rightarrow> url
               | None \<Rightarrow> collapse_trailing_slashes base @ normalized))"

section \<open>The agent roster\<close>

text \<open>
  \<^verbatim>\<open>interface AgentSpec { name: string; system_prompt: string; model?: string }\<close>.
  Types are erased at run time: an array slot may be a hole and an object may lack
  any key (\<open>None\<close>), which is what \<^verbatim>\<open>updateAgent\<close> produces out of range.
  A patch tells a key that is absent (\<open>None\<close>) from a key that is present,
  possibly with the value \<^verbatim>\<open>undefined\<close> (\<open>Some None\<close>, as in
  \<^verbatim>\<open>{ model: e.target.value || undefined }\<close>).
\<close>

record agent =
  name :: "string option"
  system_prompt :: "string option"
  model :: "string option"

record agent_patch =
  patch_name :: "string option option"
  patch_system_prompt :: "string option option"
  patch_model :: "string option option"

definition over :: "'a option \<Rightarrow> 'a option option \<Rightarrow> 'a option" where
  "over old new = (case new of None \<Rightarrow> old | Some v \<Rightarrow> v)"

text \<open>\<^verbatim>\<open>{ ...copy[idx], ...patch }\<close>; spreading \<^verbatim>\<open>undefined\<close> adds no key.\<close>

definition spread_patch :: "agent option \<Rightarrow> agent_patch \<Rightarrow> agent" where
  "spread_patch cur p =
     (let a = (case cur of None \<Rightarrow> \<lparr>name = None, system_prompt = None, model = None\<rparr> | Some a \<Rightarrow> a)
      in \<lparr>name = over (name a) (patch_name p),
          system_prompt = over (system_prompt a) (patch_system_prompt p),
          model = over (model a) (patch_model p)\<rparr>)"

text \<open>
  \<^verbatim>\<open>const copy = [...prev]; copy[idx] = { ...copy[idx], ...patch }; return copy\<close>.
  Writing past the end extends the array, leaving holes before the new element.
\<close>

definition updateAgent :: "nat \<Rightarrow> agent_patch \<Rightarrow> agent option list \<Rightarrow> agent option list" where
  "updateAgent idx patch prev =
     (if idx < length prev then prev[idx := Some (spread_patch (prev ! idx) patch)]
      else prev @ replicate (idx - length prev) None @ [Some (spread_patch None patch)])"

section \<open>Trace events and the component state\<close>

text \<open>
  \<^verbatim>\<open>type TraceEvent = { ts: number; type: ...; level?; message?; run_id?; task?;
  status?; node_history?; has_output?; output_preview?; transcript_preview? }\<close>.
  The optional fields hold whatever the payload held; a key that is absent and a key
  whose value is \<^verbatim>\<open>undefined\<close> are both \<open>JUndefined\<close>.
\<close>

datatype trace_type = T_ready | T_start | T_log | T_error | T_done | T_summary | T_client_error

record trace_event =
  ts :: int
  type :: trace_type
  level :: js
  message :: js
  run_id :: js
  task_field :: js
  status :: js
  node_history :: js
  has_output :: js
  output_preview :: js
  transcript_preview :: js

text \<open>An object literal that sets only \<^verbatim>\<open>type\<close>.\<close>

definition trace_of :: "trace_type \<Rightarrow> trace_event" where
  "trace_of ty =
     \<lparr>ts = 0, type = ty, level = JUndefined, message = JUndefined, run_id = JUndefined,
      task_field = JUndefined, status = JUndefined, node_history = JUndefined,
      has_output = JUndefined, output_preview = JUndefined, transcript_preview = JUndefined\<rparr>"

record swarm_settings =
  max_handoffs :: int
  max_iterations :: int
  execution_timeout :: int
  node_timeout :: int
  repetitive_handoff_detection_window :: int
  repetitive_handoff_min_unique_agents :: int
  entry_point :: string

record payload =
  payload_task :: string
  payload_agents :: "agent option list"
  payload_settings :: swarm_settings

datatype request = POST string payload | GET string

text \<open>How a \<^verbatim>\<open>fetch\<close> settles: the promise rejects, or a response arrives.\<close>

datatype fetch_result = Fetch_Rejected string | Fetch_Response nat string

text \<open>\<^verbatim>\<open>Response.ok\<close>\<close>

definition ok :: "nat \<Rightarrow> bool" where
  "ok st = (200 \<le> st \<and> st \<le> 299)"

text \<open>
  An \<^verbatim>\<open>EventSource\<close> the component created: its URL, the \<^verbatim>\<open>run_id\<close> its
  listeners close over, and whether \<^verbatim>\<open>close()\<close> was called on it.
\<close>

record event_source =
  es_url :: string
  es_run_id :: js
  es_closed :: bool

text \<open>
  A call of \<^verbatim>\<open>fetchFinal\<close> in progress: the URL, the loop counter \<^verbatim>\<open>i\<close>,
  and what the loop is awaiting.
\<close>

datatype poll_phase = Awaiting_Fetch | Awaiting_Timer | Finished

record poller =
  poll_url :: string
  attempt :: nat
  phase :: poll_phase

datatype tab = Trace | Transcript | Output

text \<open>
  The state cells of \<^verbatim>\<open>App\<close>, the ref \<^verbatim>\<open>esRef\<close> (an index into
  \<open>sources\<close>), and the asynchronous work in progress: the \<^verbatim>\<open>EventSource\<close>s
  created so far, one flag per call of \<^verbatim>\<open>runSwarm\<close> that awaits its start request,
  the calls of \<^verbatim>\<open>fetchFinal\<close>, the requests issued so far and the number of
  \<^verbatim>\<open>Date.now()\<close> readings taken.
\<close>

record world =
  task :: string
  agents :: "agent option list"
  settings :: swarm_settings
  loading :: bool
  resp :: js
  error :: "string option"
  runId :: js
  streaming :: bool
  traces :: "trace_event list"
  activeTab :: tab
  esRef :: "nat option"
  sources :: "event_source list"
  pending_start :: "bool list"
  polls :: "poller list"
  requests :: "request list"
  clock :: nat

definition DEFAULT_AGENTS :: "agent option list" where
  "DEFAULT_AGENTS =
     [Some \<lparr>name = Some ''researcher'', system_prompt = Some ''You are a research specialist...'', model = None\<rparr>,
      Some \<lparr>name = Some ''coder'', system_prompt = Some ''You are a coding specialist...'', model = None\<rparr>,
      Some \<lparr>name = Some ''reviewer'', system_prompt = Some ''You are a code review specialist...'', model = None\<rparr>,
      Some \<lparr>name = Some ''architect'', system_prompt = Some ''You are a system architecture specialist...'', model = None\<rparr>]"

definition DEFAULT_SETTINGS :: swarm_settings where
  "DEFAULT_SETTINGS =
     \<lparr>max_handoffs = 20, max_iterations = 20, execution_timeout = 900, node_timeout = 300,
      repetitive_handoff_detection_window = 8, repetitive_handoff_min_unique_agents = 3,
      entry_point = ''researcher''\<rparr>"

definition initial_world :: world where
  "initial_world =
     \<lparr>task = [], agents = DEFAULT_AGENTS, settings = DEFAULT_SETTINGS, loading = False,
      resp = JNull, error = None, runId = JNull, streaming = False, traces = [],
      activeTab = Trace, esRef = None, sources = [], pending_start = [], polls = [],
      requests = [], clock = 0\<rparr>"

section \<open>The trace log\<close>

text \<open>\<^verbatim>\<open>setTraces(prev => [...prev, { ...t, ts: Date.now() }])\<close>; the scroll of the
  trace panel that follows has no effect on the state.\<close>

definition addTrace :: "env \<Rightarrow> trace_event \<Rightarrow> world \<Rightarrow> world" where
  "addTrace e t w =
     w\<lparr>traces := traces w @ [t\<lparr>ts := Date_now e (clock w)\<rparr>], clock := Suc (clock w)\<rparr>"

definition clearTraces :: "world \<Rightarrow> world" where
  "clearTraces w = w\<lparr>traces := []\<rparr>"

section \<open>fetchFinal\<close>

text \<open>
  \<^verbatim>\<open>for (let i = 0; i < 120; i++) { const r = await fetch(url); if (r.status === 202)
  { await new Promise(res => setTimeout(res, 1000)); continue } if (!r.ok) throw new
  Error(`HTTP ${r.status}`); const data = await r.json(); setResp(data); return }
  throw new Error('Timed out waiting for result')\<close>.
  The function is split at its \<^verbatim>\<open>await\<close>s: the call issues the first request,
  \<open>poll_reply\<close> resumes it when the request settles, \<open>timer_fired\<close> when the
  one-second timer fires. Its only caller is the \<^verbatim>\<open>done\<close> listener, whose
  \<^verbatim>\<open>catch\<close> and \<^verbatim>\<open>finally\<close> blocks are \<open>done_settled\<close>.
  The parameter is \<^verbatim>\<open>id: string\<close>, as declared; \<open>on_done\<close> below hands over the
  text of the \<^verbatim>\<open>run_id\<close> it closes over, which is what \<^verbatim>\<open>`api/result/${id}`\<close>
  makes of it.
\<close>

definition poll_budget :: nat where
  "poll_budget = 120"

text \<open>\<^verbatim>\<open>err?.message || fallback\<close>\<close>

definition message_or :: "string \<Rightarrow> string \<Rightarrow> string" where
  "message_or m fallback = (if m = [] then fallback else m)"

definition fetchFinal :: "env \<Rightarrow> string \<Rightarrow> world \<Rightarrow> world" where
  "fetchFinal e rid w =
     (let url = buildUrl (URL_resolve e) (apiBase e) (''api/result/'' @ rid)
      in w\<lparr>polls := polls w @ [\<lparr>poll_url = url, attempt = 0, phase = Awaiting_Fetch\<rparr>],
           requests := requests w @ [GET url]\<rparr>)"

definition finish_poll :: "nat \<Rightarrow> world \<Rightarrow> world" where
  "finish_poll pid w = w\<lparr>polls := (polls w)[pid := (polls w ! pid)\<lparr>phase := Finished\<rparr>]\<rparr>"

definition done_settled :: "unit js_result \<Rightarrow> world \<Rightarrow> world" where
  "done_settled r w =
     (case r of
        Inl m \<Rightarrow> w\<lparr>error := Some (message_or m ''Failed to fetch final result'')\<rparr>
      | Inr u \<Rightarrow> w)\<lparr>loading := False, streaming := False\<rparr>"

definition poll_reply :: "env \<Rightarrow> nat \<Rightarrow> fetch_result \<Rightarrow> world \<Rightarrow> world" where
  "poll_reply e pid r w =
     (if pid < length (polls w) \<and> phase (polls w ! pid) = Awaiting_Fetch then
        (case r of
           Fetch_Rejected m \<Rightarrow> done_settled (Inl m) (finish_poll pid w)
         | Fetch_Response st body \<Rightarrow>
             if st = 202 then
               w\<lparr>polls := (polls w)[pid := (polls w ! pid)\<lparr>phase := Awaiting_Timer\<rparr>]\<rparr>
             else if \<not> ok st then
               done_settled (Inl (''HTTP '' @ dec st)) (finish_poll pid w)
             else
               (case JSON_parse e body of
                  Inl m \<Rightarrow> done_settled (Inl m) (finish_poll pid w)
                | Inr data \<Rightarrow> done_settled (Inr ()) ((finish_poll pid w)\<lparr>resp := data\<rparr>)))
      else w)"

definition timer_fired :: "nat \<Rightarrow> world \<Rightarrow> world" where
  "timer_fired pid w =
     (if pid < length (polls w) \<and> phase (polls w ! pid) = Awaiting_Timer then
        (let p = polls w ! pid; i = Suc (attempt p)
         in if i < poll_budget then
              w\<lparr>polls := (polls w)[pid := p\<lparr>attempt := i, phase := Awaiting_Fetch\<rparr>],
                requests := requests w @ [GET (poll_url p)]\<rparr>
            else done_settled (Inl ''Timed out waiting for result'') (finish_poll pid w))
      else w)"

section \<open>runSwarm and the stream listeners\<close>

definition close_source :: "nat \<Rightarrow> event_source list \<Rightarrow> event_source list" where
  "close_source i srcs = (if i < length srcs then srcs[i := (srcs ! i)\<lparr>es_closed := True\<rparr>] else srcs)"

text \<open>\<^verbatim>\<open>esRef.current?.close(); esRef.current = null\<close>\<close>

definition close_current :: "world \<Rightarrow> world" where
  "close_current w =
     (case esRef w of None \<Rightarrow> w | Some i \<Rightarrow> w\<lparr>sources := close_source i (sources w)\<rparr>)\<lparr>esRef := None\<rparr>"

text \<open>
  The synchronous part of \<^verbatim>\<open>runSwarm\<close>, up to \<^verbatim>\<open>await fetch(buildUrl('api/run/start'), ...)\<close>.
\<close>

definition runSwarm :: "env \<Rightarrow> world \<Rightarrow> world" where
  "runSwarm e w =
     (if task w = [] \<or> trim (task w) = [] then
        w\<lparr>error := Some ''Please enter a task before running the swarm.''\<rparr>
      else
        (let w1 = close_current (clearTraces (w\<lparr>error := None, resp := JNull, runId := JNull\<rparr>));
             w2 = w1\<lparr>activeTab := Trace, loading := True, streaming := True\<rparr>;
             body = \<lparr>payload_task = trim (task w), payload_agents = agents w, payload_settings = settings w\<rparr>
         in w2\<lparr>requests := requests w2 @ [POST (buildUrl (URL_resolve e) (apiBase e) ''api/run/start'') body],
               pending_start := pending_start w2 @ [True]\<rparr>))"

text \<open>The \<^verbatim>\<open>catch\<close> block of \<^verbatim>\<open>runSwarm\<close>.\<close>

definition start_failed :: "string \<Rightarrow> world \<Rightarrow> world" where
  "start_failed m w =
     close_current (w\<lparr>error := Some (message_or m ''Request failed''), loading := False, streaming := False\<rparr>)"

text \<open>
  \<^verbatim>\<open>const { run_id } = await startRes.json()\<close>: destructuring \<^verbatim>\<open>null\<close> throws a
  \<^verbatim>\<open>TypeError\<close> (the wording of its message is the engine's); any other value
  yields its \<^verbatim>\<open>run_id\<close> property or \<^verbatim>\<open>undefined\<close>.
\<close>

definition destructure_run_id :: "js \<Rightarrow> js js_result" where
  "destructure_run_id v =
     (if v = JNull \<or> v = JUndefined then Inl ''Cannot destructure property run_id''
      else Inr (opt_field v ''run_id''))"

text \<open>\<^verbatim>\<open>const es = new EventSource(buildUrl(`api/stream/${run_id}`)); esRef.current = es\<close>.
  The template literal is evaluated first; when it or the constructor throws, the
  \<^verbatim>\<open>catch\<close> block runs.\<close>

definition attach :: "env \<Rightarrow> js \<Rightarrow> world \<Rightarrow> world" where
  "attach e rid w =
     (case js_to_string e rid of
        Inl m \<Rightarrow> start_failed m w
      | Inr s \<Rightarrow>
          (let url = buildUrl (URL_resolve e) (apiBase e) (''api/stream/'' @ s)
           in case EventSource_throws e url of
                Some m \<Rightarrow> start_failed m w
              | None \<Rightarrow>
                  w\<lparr>sources := sources w @ [\<lparr>es_url = url, es_run_id = rid, es_closed = False\<rparr>],
                    esRef := Some (length (sources w))\<rparr>))"

text \<open>The rest of \<^verbatim>\<open>runSwarm\<close>, resumed when the start request settles.\<close>

definition start_reply :: "env \<Rightarrow> nat \<Rightarrow> fetch_result \<Rightarrow> world \<Rightarrow> world" where
  "start_reply e sid r w =
     (if sid < length (pending_start w) \<and> pending_start w ! sid then
        (let w0 = w\<lparr>pending_start := (pending_start w)[sid := False]\<rparr>
         in case r of
              Fetch_Rejected m \<Rightarrow> start_failed m w0
            | Fetch_Response st body \<Rightarrow>
                if \<not> ok st then start_failed (''HTTP '' @ dec st) w0
                else
                  (case JSON_parse e body of
                     Inl m \<Rightarrow> start_failed m w0
                   | Inr v \<Rightarrow>
                       (case destructure_run_id v of
                          Inl m \<Rightarrow> start_failed m w0
                        | Inr rid \<Rightarrow> attach e rid (w0\<lparr>runId := rid\<rparr>))))
      else w)"

text \<open>
  The listeners. A listener whose \<^verbatim>\<open>safeParse\<close> call threw would end there, with
  the state as it was.
\<close>

definition on_ready :: "env \<Rightarrow> js \<Rightarrow> world \<Rightarrow> world" where
  "on_ready e rid w = addTrace e ((trace_of T_ready)\<lparr>message := JStr ''stream ready'', run_id := rid\<rparr>) w"

definition on_start :: "env \<Rightarrow> js \<Rightarrow> string \<Rightarrow> world \<Rightarrow> world" where
  "on_start e rid data w =
     (case safeParse e data of
        Inl m \<Rightarrow> w
      | Inr d \<Rightarrow> addTrace e ((trace_of T_start)\<lparr>run_id := rid, task_field := opt_field d ''task''\<rparr>) w)"

definition on_log :: "env \<Rightarrow> string \<Rightarrow> world \<Rightarrow> world" where
  "on_log e data w =
     (case safeParse e data of
        Inl m \<Rightarrow> w
      | Inr d \<Rightarrow>
          addTrace e ((trace_of T_log)\<lparr>level := js_or (opt_field d ''level'') (JStr ''LOG''),
                                        message := opt_field d ''message''\<rparr>) w)"

definition on_error :: "env \<Rightarrow> string \<Rightarrow> world \<Rightarrow> world" where
  "on_error e data w =
     (case safeParse e data of
        Inl m \<Rightarrow> w
      | Inr d \<Rightarrow>
          addTrace e ((trace_of T_error)\<lparr>message := js_or (opt_field d ''error'') (JStr ''server error'')\<rparr>) w)"

definition preview_fields :: "js \<Rightarrow> trace_event \<Rightarrow> trace_event" where
  "preview_fields d t =
     t\<lparr>status := opt_field d ''status'', has_output := opt_field d ''has_output'',
       output_preview := opt_field d ''output_preview'',
       transcript_preview := opt_field d ''transcript_preview''\<rparr>"

text \<open>
  \<^verbatim>\<open>try { await fetchFinal(run_id) } catch (err) { setError(...) } finally { ... }\<close>:
  when the conversion of \<^verbatim>\<open>run_id\<close> in \<^verbatim>\<open>fetchFinal\<close>'s first line throws, the
  call is rejected before any request and the \<^verbatim>\<open>catch\<close> block records it.
\<close>

definition await_fetchFinal :: "env \<Rightarrow> js \<Rightarrow> world \<Rightarrow> world" where
  "await_fetchFinal e rid w =
     (case js_to_string e rid of
        Inl m \<Rightarrow> done_settled (Inl m) w
      | Inr s \<Rightarrow> fetchFinal e s w)"

definition on_done :: "env \<Rightarrow> nat \<Rightarrow> js \<Rightarrow> string \<Rightarrow> world \<Rightarrow> world" where
  "on_done e eid rid data w =
     (case safeParse e data of
        Inl m \<Rightarrow> w
      | Inr d \<Rightarrow>
          (let w1 = addTrace e (preview_fields d (trace_of T_done)) w;
               w2 = w1\<lparr>sources := close_source eid (sources w1), esRef := None\<rparr>
           in await_fetchFinal e rid w2))"

definition on_summary :: "env \<Rightarrow> string \<Rightarrow> world \<Rightarrow> world" where
  "on_summary e data w =
     (case safeParse e data of
        Inl m \<Rightarrow> w
      | Inr d \<Rightarrow> addTrace e (preview_fields d (trace_of T_summary)) w)"

text \<open>\<^verbatim>\<open>es.onerror = () => addTrace({ type: 'client-error', message: 'stream connection error' })\<close>\<close>

definition onerror :: "env \<Rightarrow> world \<Rightarrow> world" where
  "onerror e w = addTrace e ((trace_of T_client_error)\<lparr>message := JStr ''stream connection error''\<rparr>) w"

text \<open>
  A named message arrives on a source. A closed source dispatches nothing. A message
  named \<^verbatim>\<open>error\<close> is an event of type \<^verbatim>\<open>error\<close>, so it reaches the listener
  added for that name and then the \<^verbatim>\<open>onerror\<close> handler.
\<close>

definition stream_message :: "env \<Rightarrow> nat \<Rightarrow> string \<Rightarrow> string \<Rightarrow> world \<Rightarrow> world" where
  "stream_message e eid nm data w =
     (if eid < length (sources w) \<and> \<not> es_closed (sources w ! eid) then
        (let rid = es_run_id (sources w ! eid)
         in if nm = ''ready'' then on_ready e rid w
            else if nm = ''start'' then on_start e rid data w
            else if nm = ''log'' then on_log e data w
            else if nm = ''error'' then onerror e (on_error e data w)
            else if nm = ''done'' then on_done e eid rid data w
            else if nm = ''summary'' then on_summary e data w
            else w)
      else w)"

text \<open>
  The connection fails: the browser fires a plain \<^verbatim>\<open>error\<close> event, whose
  \<^verbatim>\<open>data\<close> is \<^verbatim>\<open>undefined\<close>; \<^verbatim>\<open>JSON.parse\<close> reads the text of its argument.
\<close>

definition stream_error :: "env \<Rightarrow> nat \<Rightarrow> world \<Rightarrow> world" where
  "stream_error e eid w =
     (if eid < length (sources w) \<and> \<not> es_closed (sources w ! eid) then
        onerror e (on_error e ''undefined'' w)
      else w)"

section \<open>Events\<close>

text \<open>
  What can happen to the mounted component. The operator edits the task or an agent,
  changes the roster or the settings (\<^verbatim>\<open>addAgent\<close>, \<^verbatim>\<open>removeAgent\<close> and the
  settings fields replace the cell; the event carries the new value), chooses a tab,
  clicks Clear (\<^verbatim>\<open><button onClick={clearTraces}>\<close>, never disabled) or clicks Run
  (\<^verbatim>\<open><Button onClick={runSwarm} disabled={loading || streaming}>\<close>); a start
  request, a stream or a poll of \<^verbatim>\<open>fetchFinal\<close> makes progress.

  What the component renders is outside the model. A render that throws (for instance
  \<^verbatim>\<open>runId.slice(0,8)\<close> at a \<^verbatim>\<open>runId\<close> that is truthy and not a string) unmounts
  the component, whose cleanup closes the stream; the model says nothing about the
  component from then on.
\<close>

datatype event =
    Set_Task string
  | Update_Agent nat agent_patch
  | Set_Agents "agent option list"
  | Set_Settings swarm_settings
  | Set_Tab tab
  | Click_Clear
  | Click_Run
  | Start_Reply nat fetch_result
  | Stream_Message nat string string
  | Stream_Error nat
  | Poll_Reply nat fetch_result
  | Timer_Fired nat

definition click_run :: "env \<Rightarrow> world \<Rightarrow> world" where
  "click_run e w = (if loading w \<or> streaming w then w else runSwarm e w)"

fun step :: "env \<Rightarrow> event \<Rightarrow> world \<Rightarrow> world" where
  "step e (Set_Task s) w = w\<lparr>task := s\<rparr>"
| "step e (Update_Agent idx patch) w = w\<lparr>agents := updateAgent idx patch (agents w)\<rparr>"
| "step e (Set_Agents ags) w = w\<lparr>agents := ags\<rparr>"
| "step e (Set_Settings st) w = w\<lparr>settings := st\<rparr>"
| "step e (Set_Tab t) w = w\<lparr>activeTab := t\<rparr>"
| "step e Click_Clear w = clearTraces w"
| "step e Click_Run w = click_run e w"
| "step e (Start_Reply sid r) w = start_reply e sid r w"
| "step e (Stream_Message eid nm data) w = stream_message e eid nm data w"
| "step e (Stream_Error eid) w = stream_error e eid w"
| "step e (Poll_Reply pid r) w = poll_reply e pid r w"
| "step e (Timer_Fired pid) w = timer_fired pid w"

definition run :: "env \<Rightarrow> event list \<Rightarrow> world \<Rightarrow> world" where
  "run e evs w = foldl (\<lambda>w ev. step e ev w) w evs"

text \<open>
  A concrete environment for evaluating the definitions: no \<^verbatim>\<open>VITE_API_BASE\<close>, a
  \<^verbatim>\<open>JSON.parse\<close> that knows five texts and rejects every other, numbers
  printed in decimal, a clock that starts at 1000.
\<close>

definition sample_env :: env where
  "sample_env =
     \<lparr>VITE_API_BASE = None,
      JSON_parse = (\<lambda>s. if s = ''{}'' then Inr (JObj [])
                        else if s = ''{\"run_id\":\"r1\"}'' then Inr (JObj [(''run_id'', JStr ''r1'')])
                        else if s = ''{\"run_id\":\"r2\"}'' then Inr (JObj [(''run_id'', JStr ''r2'')])
                        else if s = ''{\"status\":\"COMPLETED\"}'' then Inr (JObj [(''status'', JStr ''COMPLETED'')])
                        else if s = ''null'' then Inr JNull
                        else Inl ''Unexpected token''),
      URL_resolve = (\<lambda>path base. None),
      EventSource_throws = (\<lambda>url. None),
      Number_toString = (\<lambda>n. if n < 0 then ''-'' @ dec (nat (- n)) else dec (nat n)),
      Date_now = (\<lambda>k. 1000 + int k)\<rparr>"

text \<open>
  Rounds of \<^verbatim>\<open>fetchFinal\<close> in which the service answers 202: each reply is followed
  by the firing of the timer the loop then awaits.
\<close>

definition not_ready_rounds :: "nat \<Rightarrow> string list \<Rightarrow> event list" where
  "not_ready_rounds pid bodies =
     concat (map (\<lambda>b. [Poll_Reply pid (Fetch_Response 202 b), Timer_Fired pid]) bodies)"

text \<open>The component after a task was entered, Run was clicked and the service answered
  with a run id: the stream of run \<^verbatim>\<open>r1\<close> is attached.\<close>

definition streaming_world :: world where
  "streaming_world =
     run sample_env [Set_Task ''Summarize X'', Click_Run,
                     Start_Reply 0 (Fetch_Response 200 ''{\"run_id\":\"r1\"}'')] initial_world"

text \<open>A start request answered with status 200 and the body \<^verbatim>\<open>{}\<close>.\<close>

definition started_without_run_id :: world where
  "started_without_run_id =
     run sample_env [Set_Task ''Summarize X'', Click_Run, Start_Reply 0 (Fetch_Response 200 ''{}'')] initial_world"

text \<open>
  Asynchronous work in flight: start requests awaited, streams not closed, calls of
  \<^verbatim>\<open>fetchFinal\<close> that have not returned. \<open>single_flight\<close> is the invariant of the
  mounted component: \<^verbatim>\<open>loading\<close> and \<^verbatim>\<open>streaming\<close> agree, and exactly one piece
  of work is in flight while they are set, none otherwise.
\<close>

definition live_starts :: "world \<Rightarrow> nat" where
  "live_starts w = length (filter (\<lambda>b. b) (pending_start w))"

definition live_sources :: "world \<Rightarrow> nat" where
  "live_sources w = length (filter (\<lambda>s. \<not> es_closed s) (sources w))"

definition live_polls :: "world \<Rightarrow> nat" where
  "live_polls w = length (filter (\<lambda>p. phase p \<noteq> Finished) (polls w))"

definition in_flight :: "world \<Rightarrow> nat" where
  "in_flight w = live_starts w + live_sources w + live_polls w"

definition single_flight :: "world \<Rightarrow> bool" where
  "single_flight w = (loading w = streaming w \<and> in_flight w = (if loading w then 1 else 0))"

text \<open>
  Polls that have returned stay so and closed streams stay closed: \<open>settled_in w w'\<close>
  says that \<open>w'\<close> has every poll and stream of \<open>w\<close>, the finished and closed ones
  still finished and closed.
\<close>

definition polls_kept :: "poller list \<Rightarrow> poller list \<Rightarrow> bool" where
  "polls_kept ps ps' =
     (length ps \<le> length ps' \<and>
      (\<forall>p. p < length ps \<and> phase (ps ! p) = Finished \<longrightarrow> phase (ps' ! p) = Finished))"

definition sources_kept :: "event_source list \<Rightarrow> event_source list \<Rightarrow> bool" where
  "sources_kept ss ss' =
     (length ss \<le> length ss' \<and>
      (\<forall>i. i < length ss \<and> es_closed (ss ! i) \<longrightarrow> es_closed (ss' ! i)))"

definition settled_in :: "world \<Rightarrow> world \<Rightarrow> bool" where
  "settled_in w w' = (polls_kept (polls w) (polls w') \<and> sources_kept (sources w) (sources w'))"




text \<open>Run \<^verbatim>\<open>r1\<close> while it streams, after its \<^verbatim>\<open>ready\<close> message was traced.\<close>

definition traced_world :: world where
  "traced_world =
     run sample_env [Set_Task ''Summarize X'', Click_Run,
                     Start_Reply 0 (Fetch_Response 200 ''{\"run_id\":\"r1\"}''),
                     Stream_Message 0 ''ready'' []] initial_world"

section \<open>Properties\<close>

subsection \<open>buildUrl\<close>

lemma strip_leading_slashes_replicate:
  "strip_leading_slashes (replicate n (CHR ''/'') @ path) = strip_leading_slashes path"
  by (induction n) (simp_all add: strip_leading_slashes_def)

lemma leading_slashes_split:
  "path = replicate (length (takeWhile (\<lambda>c. c = CHR ''/'') path)) (CHR ''/'') @ strip_leading_slashes path"
  by (induction path) (simp_all add: strip_leading_slashes_def)

lemma strip_leading_slashes_hd:
  "strip_leading_slashes path = [] \<or> hd (strip_leading_slashes path) \<noteq> CHR ''/''"
  by (induction path) (simp_all add: strip_leading_slashes_def)

text \<open>
  C10. \<open>buildUrl\<close> is a function of the base and the path alone (\<^verbatim>\<open>new URL\<close> being
  a function of its arguments). The normalized path is the path without its leading
  slashes: it does not start with a slash, the path is a run of slashes followed by it,
  and leading slashes never change the result. When the base is empty or exactly
  \<^verbatim>\<open>/\<close> the result is \<^verbatim>\<open>/\<close> followed by the normalized path.
\<close>

theorem buildUrl_normalizes:
  "(strip_leading_slashes path = [] \<or> hd (strip_leading_slashes path) \<noteq> CHR ''/'') \<and>
   (\<exists>n. path = replicate n (CHR ''/'') @ strip_leading_slashes path) \<and>
   buildUrl r base (replicate n (CHR ''/'') @ path) = buildUrl r base path \<and>
   (base = [] \<or> base = ''/'' \<longrightarrow> buildUrl r base path = ''/'' @ strip_leading_slashes path)"
proof (intro conjI)
  show "strip_leading_slashes path = [] \<or> hd (strip_leading_slashes path) \<noteq> CHR ''/''"
    by (rule strip_leading_slashes_hd)
  show "\<exists>n. path = replicate n (CHR ''/'') @ strip_leading_slashes path"
    by (rule exI, rule leading_slashes_split)
  show "buildUrl r base (replicate n (CHR ''/'') @ path) = buildUrl r base path"
    by (simp add: buildUrl_def strip_leading_slashes_replicate)
  show "base = [] \<or> base = ''/'' \<longrightarrow> buildUrl r base path = ''/'' @ strip_leading_slashes path"
    by (auto simp: buildUrl_def)
qed

theorem buildUrl_normalizes_witness:
  "buildUrl (\<lambda>path base. None) ''/'' ''//api/run/start'' = ''/api/run/start''"
proof -
  have "''/'' = [] \<or> ''/'' = ''/''" by simp
  with buildUrl_normalizes [of "''//api/run/start''" "\<lambda>path base. None" "''/''" 0]
  have "buildUrl (\<lambda>path base. None) ''/'' ''//api/run/start'' = ''/'' @ strip_leading_slashes ''//api/run/start''"
    by blast
  then show ?thesis by (simp add: strip_leading_slashes_def)
qed

subsection \<open>updateAgent\<close>

text \<open>
  C9. For an index inside the list, \<open>updateAgent\<close> keeps the length, puts at the
  index the agent there with the patch's keys written over its own, and leaves every
  other position as it was (so the order of the agents is kept).
\<close>

theorem updateAgent_frame:
  assumes "idx < length prev"
  shows "length (updateAgent idx patch prev) = length prev \<and>
         updateAgent idx patch prev ! idx = Some (spread_patch (prev ! idx) patch) \<and>
         (\<forall>j. j < length prev \<and> j \<noteq> idx \<longrightarrow> updateAgent idx patch prev ! j = prev ! j) \<and>
         (\<forall>a. prev ! idx = Some a \<longrightarrow>
            spread_patch (prev ! idx) patch =
              \<lparr>name = (case patch_name patch of None \<Rightarrow> name a | Some v \<Rightarrow> v),
               system_prompt = (case patch_system_prompt patch of None \<Rightarrow> system_prompt a | Some v \<Rightarrow> v),
               model = (case patch_model patch of None \<Rightarrow> model a | Some v \<Rightarrow> v)\<rparr>)"
  using assms by (simp add: updateAgent_def spread_patch_def over_def)

theorem updateAgent_frame_witness:
  "(1::nat) < length DEFAULT_AGENTS \<and>
   length (updateAgent 1 \<lparr>patch_name = Some (Some ''dev''), patch_system_prompt = None, patch_model = Some None\<rparr> DEFAULT_AGENTS) = 4 \<and>
   updateAgent 1 \<lparr>patch_name = Some (Some ''dev''), patch_system_prompt = None, patch_model = Some None\<rparr> DEFAULT_AGENTS ! 1 =
     Some \<lparr>name = Some ''dev'', system_prompt = Some ''You are a coding specialist...'', model = None\<rparr> \<and>
   updateAgent 1 \<lparr>patch_name = Some (Some ''dev''), patch_system_prompt = None, patch_model = Some None\<rparr> DEFAULT_AGENTS ! 2 =
     DEFAULT_AGENTS ! 2"
proof -
  let ?p = "\<lparr>patch_name = Some (Some ''dev''), patch_system_prompt = None, patch_model = Some None\<rparr>"
  have h: "(1::nat) < length DEFAULT_AGENTS" by (simp add: DEFAULT_AGENTS_def)
  have l: "length DEFAULT_AGENTS = 4" by (simp add: DEFAULT_AGENTS_def)
  have a: "DEFAULT_AGENTS ! 1 = Some \<lparr>name = Some ''coder'', system_prompt = Some ''You are a coding specialist...'', model = None\<rparr>"
    by (simp add: DEFAULT_AGENTS_def)
  note f = updateAgent_frame [OF h, of ?p]
  from f have f1: "length (updateAgent 1 ?p DEFAULT_AGENTS) = length DEFAULT_AGENTS" by blast
  from f have f2: "updateAgent 1 ?p DEFAULT_AGENTS ! 1 = Some (spread_patch (DEFAULT_AGENTS ! 1) ?p)" by blast
  from f have f3: "\<forall>j. j < length DEFAULT_AGENTS \<and> j \<noteq> 1 \<longrightarrow> updateAgent 1 ?p DEFAULT_AGENTS ! j = DEFAULT_AGENTS ! j" by blast
  from f a have f4: "spread_patch (DEFAULT_AGENTS ! 1) ?p =
      \<lparr>name = Some ''dev'', system_prompt = Some ''You are a coding specialist...'', model = None\<rparr>"
    by simp
  have f5: "updateAgent 1 ?p DEFAULT_AGENTS ! 2 = DEFAULT_AGENTS ! 2"
    using f3 l by simp
  show ?thesis using h f1 l f2 f4 f5 by simp
qed

subsection \<open>safeParse\<close>

text \<open>
  C8. \<open>safeParse\<close> never throws: for every text it returns a value, the decoded
  value when \<^verbatim>\<open>JSON.parse\<close> accepts the text and \<^verbatim>\<open>undefined\<close> when it throws.
\<close>

theorem safeParse_total:
  "(\<exists>v. safeParse e s = Inr v) \<and>
   (\<forall>v. JSON_parse e s = Inr v \<longrightarrow> safeParse e s = Inr v) \<and>
   (\<forall>m. JSON_parse e s = Inl m \<longrightarrow> safeParse e s = Inr JUndefined)"
  by (cases "JSON_parse e s") (simp_all add: safeParse_def try_catch_def)

theorem safeParse_total_witness:
  "JSON_parse sample_env ''{}'' = Inr (JObj []) \<and> safeParse sample_env ''{}'' = Inr (JObj []) \<and>
   JSON_parse sample_env ''{'' = Inl ''Unexpected token'' \<and> safeParse sample_env ''{'' = Inr JUndefined"
proof -
  have a: "JSON_parse sample_env ''{}'' = Inr (JObj [])" by (simp add: sample_env_def)
  have b: "JSON_parse sample_env ''{'' = Inl ''Unexpected token''" by (simp add: sample_env_def)
  from a safeParse_total [of sample_env "''{}''"] have "safeParse sample_env ''{}'' = Inr (JObj [])" by blast
  moreover from b safeParse_total [of sample_env "''{''"] have "safeParse sample_env ''{'' = Inr JUndefined" by blast
  ultimately show ?thesis using a b by simp
qed

subsection \<open>Validation of the task\<close>

lemma trim_blank: "\<forall>c\<in>set s. js_whitespace c \<Longrightarrow> trim s = []"
proof -
  assume "\<forall>c\<in>set s. js_whitespace c"
  then have h: "dropWhile js_whitespace s = []" by simp
  show ?thesis unfolding trim_def h by simp
qed

text \<open>
  C4. When the task is empty or holds only white space, \<open>runSwarm\<close> records the
  validation message and returns at once: every other cell is as it was, no request
  has been issued and none is awaited, whether the function is called directly or
  through the Run button.
\<close>

theorem runSwarm_blank_task:
  assumes "\<forall>c\<in>set (task w). js_whitespace c"
  shows "runSwarm e w = w\<lparr>error := Some ''Please enter a task before running the swarm.''\<rparr> \<and>
         requests (runSwarm e w) = requests w \<and>
         pending_start (runSwarm e w) = pending_start w \<and>
         requests (step e Click_Run w) = requests w"
proof -
  have t: "trim (task w) = []" using assms by (rule trim_blank)
  have r: "runSwarm e w = w\<lparr>error := Some ''Please enter a task before running the swarm.''\<rparr>"
    unfolding runSwarm_def using t by simp
  show ?thesis unfolding click_run_def step.simps r by simp
qed

theorem runSwarm_blank_task_witness:
  "task (initial_world\<lparr>task := ''   ''\<rparr>) = ''   '' \<and>
   error (runSwarm sample_env (initial_world\<lparr>task := ''   ''\<rparr>)) =
     Some ''Please enter a task before running the swarm.'' \<and>
   requests (runSwarm sample_env (initial_world\<lparr>task := ''   ''\<rparr>)) = []"
proof -
  have h: "\<forall>c\<in>set (task (initial_world\<lparr>task := ''   ''\<rparr>)). js_whitespace c"
    by (simp add: js_whitespace_def)
  have r: "requests (initial_world\<lparr>task := ''   ''\<rparr>) = []" by (simp add: initial_world_def)
  from runSwarm_blank_task [OF h, of sample_env] have
    "runSwarm sample_env (initial_world\<lparr>task := ''   ''\<rparr>) =
       initial_world\<lparr>task := ''   '', error := Some ''Please enter a task before running the swarm.''\<rparr>"
    and "requests (runSwarm sample_env (initial_world\<lparr>task := ''   ''\<rparr>)) = requests (initial_world\<lparr>task := ''   ''\<rparr>)"
    by simp_all
  then show ?thesis using r by simp
qed

subsection \<open>Cells read after a basic operation\<close>

lemma run_Nil [simp]: "run e [] w = w"
  by (simp add: run_def)

lemma run_Cons [simp]: "run e (ev # evs) w = run e evs (step e ev w)"
  by (simp add: run_def)

lemma run_append: "run e (xs @ ys) w = run e ys (run e xs w)"
  by (simp add: run_def)

lemma safeParse_malformed: "JSON_parse e data = Inl m \<Longrightarrow> safeParse e data = Inr JUndefined"
  by (simp add: safeParse_def try_catch_def)

lemma safeParse_Inr: "\<exists>v. safeParse e data = Inr v"
  by (cases "JSON_parse e data") (simp_all add: safeParse_def try_catch_def)

lemma addTrace_fields [simp]:
  "traces (addTrace e t w) = traces w @ [t\<lparr>ts := Date_now e (clock w)\<rparr>]"
  "clock (addTrace e t w) = Suc (clock w)"
  "error (addTrace e t w) = error w"
  "resp (addTrace e t w) = resp w"
  "sources (addTrace e t w) = sources w"
  "esRef (addTrace e t w) = esRef w"
  "polls (addTrace e t w) = polls w"
  "requests (addTrace e t w) = requests w"
  "pending_start (addTrace e t w) = pending_start w"
  "loading (addTrace e t w) = loading w"
  "streaming (addTrace e t w) = streaming w"
  by (simp_all add: addTrace_def)

lemma fetchFinal_fields [simp]:
  "traces (fetchFinal e rid w) = traces w"
  "clock (fetchFinal e rid w) = clock w"
  "error (fetchFinal e rid w) = error w"
  "resp (fetchFinal e rid w) = resp w"
  "sources (fetchFinal e rid w) = sources w"
  "esRef (fetchFinal e rid w) = esRef w"
  "polls (fetchFinal e rid w) = polls w @
     [\<lparr>poll_url = buildUrl (URL_resolve e) (apiBase e) (''api/result/'' @ rid), attempt = 0, phase = Awaiting_Fetch\<rparr>]"
  "requests (fetchFinal e rid w) = requests w @
     [GET (buildUrl (URL_resolve e) (apiBase e) (''api/result/'' @ rid))]"
  "pending_start (fetchFinal e rid w) = pending_start w"
  "loading (fetchFinal e rid w) = loading w"
  "streaming (fetchFinal e rid w) = streaming w"
  by (simp_all add: fetchFinal_def Let_def)

subsection \<open>The trace log\<close>

lemma addTrace_fold:
  "traces (foldl (\<lambda>w t. addTrace e t w) w evs) =
     traces w @ map (\<lambda>(k, t). t\<lparr>ts := Date_now e k\<rparr>) (zip [clock w ..< clock w + length evs] evs)"
proof (induction evs arbitrary: w)
  case Nil
  show ?case by simp
next
  case (Cons t evs)
  have u: "[clock w ..< clock w + length (t # evs)] = clock w # [Suc (clock w) ..< Suc (clock w) + length evs]"
    by (subst upt_rec) simp
  show ?case
    unfolding foldl_Cons Cons.IH u by (simp add: addTrace_def)
qed

lemma traces_done_settled: "traces (done_settled r w) = traces w"
  by (cases r) (simp_all add: done_settled_def)

lemma traces_finish_poll: "traces (finish_poll pid w) = traces w"
  by (simp add: finish_poll_def)

lemma traces_poll_reply: "traces (poll_reply e pid r w) = traces w"
  by (cases r) (simp_all add: poll_reply_def traces_done_settled traces_finish_poll split: sum.splits)

lemma traces_timer_fired: "traces (timer_fired pid w) = traces w"
  by (simp add: timer_fired_def Let_def traces_done_settled traces_finish_poll)

lemma traces_close_current: "traces (close_current w) = traces w"
  by (cases "esRef w") (simp_all add: close_current_def)

lemma traces_start_failed: "traces (start_failed m w) = traces w"
  by (simp add: start_failed_def traces_close_current)

lemma traces_attach: "traces (attach e rid w) = traces w"
  by (simp add: attach_def Let_def traces_start_failed split: sum.splits option.splits)

lemma traces_start_reply: "traces (start_reply e sid r w) = traces w"
  by (cases r) (simp_all add: start_reply_def Let_def traces_start_failed traces_attach split: sum.splits)

lemma traces_await_fetchFinal: "traces (await_fetchFinal e rid w) = traces w"
  by (simp add: await_fetchFinal_def traces_done_settled split: sum.splits)

lemma traces_on_done: "\<exists>new. traces (on_done e eid rid data w) = traces w @ new"
  by (simp add: on_done_def Let_def traces_await_fetchFinal split: sum.splits)

lemma traces_stream_message: "\<exists>new. traces (stream_message e eid nm data w) = traces w @ new"
  by (simp add: stream_message_def Let_def on_ready_def on_start_def on_log_def on_error_def onerror_def
      traces_on_done on_summary_def split: sum.splits)

lemma traces_stream_error: "\<exists>new. traces (stream_error e eid w) = traces w @ new"
  by (simp add: stream_error_def on_error_def onerror_def split: sum.splits)

lemma traces_step:
  "ev \<noteq> Click_Run \<Longrightarrow> ev \<noteq> Click_Clear \<Longrightarrow> \<exists>new. traces (step e ev w) = traces w @ new"
  by (cases ev) (simp_all add: traces_start_reply traces_stream_message traces_stream_error
      traces_poll_reply traces_timer_fired)

text \<open>
  C7, as the code has it. Whatever events are appended, the log afterwards is the log
  before followed by the events in the order of the calls, each stamped with the reading
  of \<^verbatim>\<open>Date.now()\<close> taken at its append, whatever \<^verbatim>\<open>ts\<close> the event carried; so
  appending never shortens the log. Every event of the component other than a click on
  Clear and a click on Run that starts a new run leaves the log a prefix of the new one.
  A click on Clear, which is never disabled, empties the log and changes nothing else,
  also while a run is active.
\<close>

theorem trace_log_append_only:
  "traces (foldl (\<lambda>w t. addTrace e t w) w evs) =
     traces w @ map (\<lambda>(k, t). t\<lparr>ts := Date_now e k\<rparr>) (zip [clock w ..< clock w + length evs] evs) \<and>
   length (traces w) \<le> length (traces (foldl (\<lambda>w t. addTrace e t w) w evs)) \<and>
   (ev \<noteq> Click_Clear \<and> (ev \<noteq> Click_Run \<or> loading w \<or> streaming w) \<longrightarrow>
      (\<exists>new. traces (step e ev w) = traces w @ new)) \<and>
   step e Click_Clear w = w\<lparr>traces := []\<rparr>"
proof (intro conjI impI)
  show "traces (foldl (\<lambda>w t. addTrace e t w) w evs) =
     traces w @ map (\<lambda>(k, t). t\<lparr>ts := Date_now e k\<rparr>) (zip [clock w ..< clock w + length evs] evs)"
    by (rule addTrace_fold)
  show "length (traces w) \<le> length (traces (foldl (\<lambda>w t. addTrace e t w) w evs))"
    unfolding addTrace_fold by simp
  show "step e Click_Clear w = w\<lparr>traces := []\<rparr>"
    by (simp add: clearTraces_def)
  assume h: "ev \<noteq> Click_Clear \<and> (ev \<noteq> Click_Run \<or> loading w \<or> streaming w)"
  show "\<exists>new. traces (step e ev w) = traces w @ new"
  proof (cases "ev = Click_Run")
    case True
    with h have "loading w \<or> streaming w" by simp
    with True show ?thesis by (simp add: click_run_def)
  next
    case False
    with h show ?thesis by (simp add: traces_step)
  qed
qed

text \<open>
  The claim as stated fails: run \<^verbatim>\<open>r1\<close> is streaming and its \<^verbatim>\<open>ready\<close> message is
  in the log; a click on Clear empties the log while the run is still active.
\<close>

theorem clear_during_run_counterexample:
  "loading traced_world \<and> streaming traced_world \<and> esRef traced_world = Some 0 \<and>
   es_closed (sources traced_world ! 0) = False \<and> map type (traces traced_world) = [T_ready] \<and>
   traces (step sample_env Click_Clear traced_world) = [] \<and>
   loading (step sample_env Click_Clear traced_world) \<and> streaming (step sample_env Click_Clear traced_world) \<and>
   es_closed (sources (step sample_env Click_Clear traced_world) ! 0) = False"
  by code_simp

theorem trace_log_append_only_witness:
  "traces (foldl (\<lambda>w t. addTrace sample_env t w) initial_world [trace_of T_ready, (trace_of T_log)\<lparr>ts := 5\<rparr>]) =
     [(trace_of T_ready)\<lparr>ts := 1000\<rparr>, (trace_of T_log)\<lparr>ts := 1001\<rparr>] \<and>
   loading traced_world \<and> map type (traces traced_world) = [T_ready] \<and>
   (\<exists>new. traces (step sample_env (Stream_Message 0 ''log'' ''{}'') traced_world) = traces traced_world @ new) \<and>
   map type (traces (step sample_env (Stream_Message 0 ''log'' ''{}'') traced_world)) = [T_ready, T_log]"
proof -
  note t = trace_log_append_only [of sample_env initial_world "[trace_of T_ready, (trace_of T_log)\<lparr>ts := 5\<rparr>]"]
  have c: "clock initial_world = 0" "traces initial_world = []" by (simp_all add: initial_world_def)
  have z: "[0 ..< 0 + length [trace_of T_ready, (trace_of T_log)\<lparr>ts := 5\<rparr>]] = [0, 1]"
    by (simp add: upt_rec)
  have a: "traces (foldl (\<lambda>w t. addTrace sample_env t w) initial_world [trace_of T_ready, (trace_of T_log)\<lparr>ts := 5\<rparr>]) =
     [(trace_of T_ready)\<lparr>ts := 1000\<rparr>, (trace_of T_log)\<lparr>ts := 1001\<rparr>]"
    unfolding t [THEN conjunct1] c z by (simp add: sample_env_def)
  have h: "Stream_Message 0 ''log'' ''{}'' \<noteq> Click_Clear \<and>
           (Stream_Message 0 ''log'' ''{}'' \<noteq> Click_Run \<or> loading traced_world \<or> streaming traced_world)"
    by simp
  note b = trace_log_append_only [of sample_env traced_world "[]" "Stream_Message 0 ''log'' ''{}''",
      THEN conjunct2, THEN conjunct2, THEN conjunct1, THEN mp, OF h]
  have l: "loading traced_world" "map type (traces traced_world) = [T_ready]"
    "map type (traces (step sample_env (Stream_Message 0 ''log'' ''{}'') traced_world)) = [T_ready, T_log]"
    by code_simp+
  show ?thesis using a b l by simp
qed

subsection \<open>Stream messages\<close>

lemma stream_message_closed:
  "\<not> (eid < length (sources w) \<and> \<not> es_closed (sources w ! eid)) \<Longrightarrow> stream_message e eid nm data w = w"
  by (simp only: stream_message_def if_False)

lemma stream_message_open:
  assumes "eid < length (sources w)" and "\<not> es_closed (sources w ! eid)" and "safeParse e data = Inr d"
  shows "stream_message e eid nm data w =
     (if nm = ''ready'' then addTrace e ((trace_of T_ready)\<lparr>message := JStr ''stream ready'', run_id := es_run_id (sources w ! eid)\<rparr>) w
      else if nm = ''start'' then addTrace e ((trace_of T_start)\<lparr>run_id := es_run_id (sources w ! eid), task_field := opt_field d ''task''\<rparr>) w
      else if nm = ''log'' then addTrace e ((trace_of T_log)\<lparr>level := js_or (opt_field d ''level'') (JStr ''LOG''), message := opt_field d ''message''\<rparr>) w
      else if nm = ''error'' then
        addTrace e ((trace_of T_client_error)\<lparr>message := JStr ''stream connection error''\<rparr>)
          (addTrace e ((trace_of T_error)\<lparr>message := js_or (opt_field d ''error'') (JStr ''server error'')\<rparr>) w)
      else if nm = ''done'' then
        await_fetchFinal e (es_run_id (sources w ! eid))
          ((addTrace e (preview_fields d (trace_of T_done)) w)\<lparr>sources := close_source eid (sources w), esRef := None\<rparr>)
      else if nm = ''summary'' then addTrace e (preview_fields d (trace_of T_summary)) w
      else w)"
  unfolding stream_message_def Let_def on_ready_def on_start_def on_log_def on_error_def onerror_def
      on_done_def on_summary_def
  using assms by (simp only: simp_thms if_True sum.case addTrace_fields)

lemma await_fetchFinal_fields [simp]:
  "traces (await_fetchFinal e rid w) = traces w"
  "clock (await_fetchFinal e rid w) = clock w"
  "resp (await_fetchFinal e rid w) = resp w"
  "sources (await_fetchFinal e rid w) = sources w"
  "esRef (await_fetchFinal e rid w) = esRef w"
  "pending_start (await_fetchFinal e rid w) = pending_start w"
  by (simp_all add: await_fetchFinal_def done_settled_def split: sum.splits)

lemma await_fetchFinal_error:
  "error (await_fetchFinal e rid w) =
     (case js_to_string e rid of Inl m \<Rightarrow> Some (message_or m ''Failed to fetch final result'') | Inr s \<Rightarrow> error w)"
  by (simp add: await_fetchFinal_def done_settled_def split: sum.splits)

lemma sources_stream_message:
  "sources (stream_message e eid nm data w) =
     (if eid < length (sources w) \<and> \<not> es_closed (sources w ! eid) \<and> nm = ''done''
      then close_source eid (sources w) else sources w)"
proof (cases "eid < length (sources w) \<and> \<not> es_closed (sources w ! eid)")
  case False
  then show ?thesis by (auto simp: stream_message_closed)
next
  case True
  obtain d where d: "safeParse e data = Inr d" using safeParse_Inr by blast
  show ?thesis using True by (simp add: stream_message_open [OF _ _ d])
qed

lemma esRef_stream_message:
  "esRef (stream_message e eid nm data w) =
     (if eid < length (sources w) \<and> \<not> es_closed (sources w ! eid) \<and> nm = ''done''
      then None else esRef w)"
proof (cases "eid < length (sources w) \<and> \<not> es_closed (sources w ! eid)")
  case False
  then show ?thesis by (auto simp: stream_message_closed)
next
  case True
  obtain d where d: "safeParse e data = Inr d" using safeParse_Inr by blast
  show ?thesis using True by (simp add: stream_message_open [OF _ _ d])
qed

lemma error_stream_message:
  "error (stream_message e eid nm data w) =
     (if eid < length (sources w) \<and> \<not> es_closed (sources w ! eid) \<and> nm = ''done''
      then (case js_to_string e (es_run_id (sources w ! eid)) of
              Inl m \<Rightarrow> Some (message_or m ''Failed to fetch final result'') | Inr s \<Rightarrow> error w)
      else error w)"
proof (cases "eid < length (sources w) \<and> \<not> es_closed (sources w ! eid)")
  case False
  then show ?thesis by (auto simp: stream_message_closed)
next
  case True
  obtain d where d: "safeParse e data = Inr d" using safeParse_Inr by blast
  show ?thesis using True
    by (simp add: stream_message_open [OF _ _ d] await_fetchFinal_error split: sum.splits)
qed

lemma malformed_message:
  assumes "JSON_parse e data = Inl m" and "eid < length (sources w)" and "\<not> es_closed (sources w ! eid)"
  shows "stream_message e eid nm data w =
     (if nm = ''ready'' then addTrace e ((trace_of T_ready)\<lparr>message := JStr ''stream ready'', run_id := es_run_id (sources w ! eid)\<rparr>) w
      else if nm = ''start'' then addTrace e ((trace_of T_start)\<lparr>run_id := es_run_id (sources w ! eid)\<rparr>) w
      else if nm = ''log'' then addTrace e ((trace_of T_log)\<lparr>level := JStr ''LOG''\<rparr>) w
      else if nm = ''error'' then
        addTrace e ((trace_of T_client_error)\<lparr>message := JStr ''stream connection error''\<rparr>)
          (addTrace e ((trace_of T_error)\<lparr>message := JStr ''server error''\<rparr>) w)
      else if nm = ''done'' then
        await_fetchFinal e (es_run_id (sources w ! eid))
          ((addTrace e (trace_of T_done) w)\<lparr>sources := close_source eid (sources w), esRef := None\<rparr>)
      else if nm = ''summary'' then addTrace e (trace_of T_summary) w
      else w)"
  unfolding stream_message_open [OF assms(2,3) safeParse_malformed [OF assms(1)]]
  by (simp add: trace_of_def js_or_def preview_fields_def)

lemma malformed_traces:
  assumes "JSON_parse e data = Inl m" and "eid < length (sources w)" and "\<not> es_closed (sources w ! eid)"
  shows "traces (stream_message e eid ''ready'' data w) =
           traces w @ [(trace_of T_ready)\<lparr>ts := Date_now e (clock w), message := JStr ''stream ready'',
                         run_id := es_run_id (sources w ! eid)\<rparr>]"
    and "traces (stream_message e eid ''start'' data w) =
           traces w @ [(trace_of T_start)\<lparr>ts := Date_now e (clock w), run_id := es_run_id (sources w ! eid)\<rparr>]"
    and "traces (stream_message e eid ''log'' data w) =
           traces w @ [(trace_of T_log)\<lparr>ts := Date_now e (clock w), level := JStr ''LOG''\<rparr>]"
    and "traces (stream_message e eid ''error'' data w) =
           traces w @ [(trace_of T_error)\<lparr>ts := Date_now e (clock w), message := JStr ''server error''\<rparr>,
                       (trace_of T_client_error)\<lparr>ts := Date_now e (Suc (clock w)), message := JStr ''stream connection error''\<rparr>]"
    and "traces (stream_message e eid ''summary'' data w) =
           traces w @ [(trace_of T_summary)\<lparr>ts := Date_now e (clock w)\<rparr>]"
    and "traces (stream_message e eid ''done'' data w) =
           traces w @ [(trace_of T_done)\<lparr>ts := Date_now e (clock w)\<rparr>]"
  unfolding malformed_message [OF assms]
  by (simp_all add: trace_of_def)

lemma malformed_frame:
  assumes "JSON_parse e data = Inl m" and "eid < length (sources w)" and "\<not> es_closed (sources w ! eid)"
    and "nm \<noteq> ''done''"
  shows "(stream_message e eid nm data w)\<lparr>traces := traces w, clock := clock w\<rparr> = w"
  unfolding malformed_message [OF assms(1,2,3)] using assms(4)
  by (simp add: addTrace_def)

text \<open>
  C6. A message on an open stream whose payload \<^verbatim>\<open>JSON.parse\<close> rejects still appends
  its trace event, for each of the six names the component listens to: the event of
  the message's name, stamped on arrival, with every field read from the payload
  \<^verbatim>\<open>undefined\<close> (\<^verbatim>\<open>level\<close> falls back to \<^verbatim>\<open>LOG\<close>, the message of an
  \<^verbatim>\<open>error\<close> to \<^verbatim>\<open>server error\<close>; \<^verbatim>\<open>ready\<close> reads nothing from its payload;
  an \<^verbatim>\<open>error\<close> message also reaches \<^verbatim>\<open>onerror\<close>). A message of any other name
  has no listener and changes nothing. Unless the message is \<^verbatim>\<open>done\<close>, nothing but
  the log changes: no error is recorded and the stream stays attached. A \<^verbatim>\<open>done\<close>
  message does what every \<^verbatim>\<open>done\<close> does, with the preview fields \<^verbatim>\<open>undefined\<close>:
  it closes the stream and calls \<^verbatim>\<open>fetchFinal\<close>, recording no error when the run id
  has a text. The subscription and the error cell are what any other payload would
  have left.
\<close>

theorem malformed_payload_absorbed:
  assumes "JSON_parse e data = Inl m" and "eid < length (sources w)" and "\<not> es_closed (sources w ! eid)"
  shows "traces (stream_message e eid ''ready'' data w) =
           traces w @ [(trace_of T_ready)\<lparr>ts := Date_now e (clock w), message := JStr ''stream ready'',
                         run_id := es_run_id (sources w ! eid)\<rparr>] \<and>
         traces (stream_message e eid ''start'' data w) =
           traces w @ [(trace_of T_start)\<lparr>ts := Date_now e (clock w), run_id := es_run_id (sources w ! eid)\<rparr>] \<and>
         traces (stream_message e eid ''log'' data w) =
           traces w @ [(trace_of T_log)\<lparr>ts := Date_now e (clock w), level := JStr ''LOG''\<rparr>] \<and>
         traces (stream_message e eid ''error'' data w) =
           traces w @ [(trace_of T_error)\<lparr>ts := Date_now e (clock w), message := JStr ''server error''\<rparr>,
                       (trace_of T_client_error)\<lparr>ts := Date_now e (Suc (clock w)), message := JStr ''stream connection error''\<rparr>] \<and>
         traces (stream_message e eid ''summary'' data w) =
           traces w @ [(trace_of T_summary)\<lparr>ts := Date_now e (clock w)\<rparr>] \<and>
         traces (stream_message e eid ''done'' data w) =
           traces w @ [(trace_of T_done)\<lparr>ts := Date_now e (clock w)\<rparr>] \<and>
         (\<forall>nm. nm \<noteq> ''ready'' \<and> nm \<noteq> ''start'' \<and> nm \<noteq> ''log'' \<and> nm \<noteq> ''error'' \<and>
                nm \<noteq> ''summary'' \<and> nm \<noteq> ''done'' \<longrightarrow> stream_message e eid nm data w = w) \<and>
         (\<forall>nm. nm \<noteq> ''done'' \<longrightarrow>
                (stream_message e eid nm data w)\<lparr>traces := traces w, clock := clock w\<rparr> = w) \<and>
         stream_message e eid ''done'' data w =
           await_fetchFinal e (es_run_id (sources w ! eid))
             ((addTrace e (trace_of T_done) w)\<lparr>sources := close_source eid (sources w), esRef := None\<rparr>) \<and>
         (\<forall>s. js_to_string e (es_run_id (sources w ! eid)) = Inr s \<longrightarrow>
                error (stream_message e eid ''done'' data w) = error w) \<and>
         (\<forall>nm data'. sources (stream_message e eid nm data w) = sources (stream_message e eid nm data' w) \<and>
                      esRef (stream_message e eid nm data w) = esRef (stream_message e eid nm data' w) \<and>
                      error (stream_message e eid nm data w) = error (stream_message e eid nm data' w))"
proof -
  have other: "\<forall>nm. nm \<noteq> ''ready'' \<and> nm \<noteq> ''start'' \<and> nm \<noteq> ''log'' \<and> nm \<noteq> ''error'' \<and>
                nm \<noteq> ''summary'' \<and> nm \<noteq> ''done'' \<longrightarrow> stream_message e eid nm data w = w"
    unfolding malformed_message [OF assms] by simp
  have frame: "\<forall>nm. nm \<noteq> ''done'' \<longrightarrow>
                (stream_message e eid nm data w)\<lparr>traces := traces w, clock := clock w\<rparr> = w"
    using malformed_frame [OF assms] by blast
  have dn: "stream_message e eid ''done'' data w =
           await_fetchFinal e (es_run_id (sources w ! eid))
             ((addTrace e (trace_of T_done) w)\<lparr>sources := close_source eid (sources w), esRef := None\<rparr>)"
    unfolding malformed_message [OF assms] by simp
  have err: "\<forall>s. js_to_string e (es_run_id (sources w ! eid)) = Inr s \<longrightarrow>
                error (stream_message e eid ''done'' data w) = error w"
    using assms(2,3) by (simp add: error_stream_message)
  have same: "\<forall>nm data'. sources (stream_message e eid nm data w) = sources (stream_message e eid nm data' w) \<and>
                      esRef (stream_message e eid nm data w) = esRef (stream_message e eid nm data' w) \<and>
                      error (stream_message e eid nm data w) = error (stream_message e eid nm data' w)"
    by (simp add: sources_stream_message esRef_stream_message error_stream_message)
  show ?thesis
    using malformed_traces [OF assms] other frame dn err same by (intro conjI)
qed

theorem malformed_payload_absorbed_witness:
  "JSON_parse sample_env ''{oops'' = Inl ''Unexpected token'' \<and>
   traces (stream_message sample_env 0 ''log'' ''{oops'' streaming_world) =
     [(trace_of T_log)\<lparr>ts := 1000, level := JStr ''LOG''\<rparr>] \<and>
   traces (stream_message sample_env 0 ''ready'' ''{oops'' streaming_world) =
     [(trace_of T_ready)\<lparr>ts := 1000, message := JStr ''stream ready'', run_id := JStr ''r1''\<rparr>] \<and>
   (stream_message sample_env 0 ''log'' ''{oops'' streaming_world)\<lparr>traces := [], clock := 0\<rparr> = streaming_world \<and>
   error (stream_message sample_env 0 ''done'' ''{oops'' streaming_world) = None"
proof -
  have p: "JSON_parse sample_env ''{oops'' = Inl ''Unexpected token''" by (simp add: sample_env_def)
  have a: "0 < length (sources streaming_world)" by code_simp
  have b: "\<not> es_closed (sources streaming_world ! 0)" by code_simp
  have c: "traces streaming_world = []" "clock streaming_world = 0" "error streaming_world = None"
    "es_run_id (sources streaming_world ! 0) = JStr ''r1''" by code_simp+
  have d: "Date_now sample_env 0 = 1000" by (simp add: sample_env_def)
  have n: "''log'' \<noteq> ''done''" by simp
  have j: "js_to_string sample_env (JStr ''r1'') = Inr ''r1''" by simp
  note t = malformed_payload_absorbed [OF p a b]
  note t_ready = t [THEN conjunct1]
  note t_log = t [THEN conjunct2, THEN conjunct2, THEN conjunct1]
  note t_frame = t [THEN conjunct2, THEN conjunct2, THEN conjunct2, THEN conjunct2, THEN conjunct2,
               THEN conjunct2, THEN conjunct2, THEN conjunct1, THEN spec, of "''log''", THEN mp, OF n]
  note t_err = t [THEN conjunct2, THEN conjunct2, THEN conjunct2, THEN conjunct2, THEN conjunct2,
               THEN conjunct2, THEN conjunct2, THEN conjunct2, THEN conjunct2, THEN conjunct1,
               THEN spec, of "''r1''", unfolded c, THEN mp, OF j]
  show ?thesis unfolding t_ready t_log t_err c d using p t_frame [unfolded c] by simp
qed

subsection \<open>The poll loop\<close>

lemma poll_reply_finished:
  "\<not> (pid < length (polls w) \<and> phase (polls w ! pid) = Awaiting_Fetch) \<Longrightarrow> poll_reply e pid r w = w"
  by (simp only: poll_reply_def if_False)

lemma timer_fired_finished:
  "\<not> (pid < length (polls w) \<and> phase (polls w ! pid) = Awaiting_Timer) \<Longrightarrow> timer_fired pid w = w"
  by (simp only: timer_fired_def if_False)

lemma poll_round:
  assumes "pid < length (polls w)" and "phase (polls w ! pid) = Awaiting_Fetch"
    and "Suc (attempt (polls w ! pid)) < poll_budget"
  shows "timer_fired pid (poll_reply e pid (Fetch_Response 202 b) w) =
           w\<lparr>polls := (polls w)[pid := (polls w ! pid)\<lparr>attempt := Suc (attempt (polls w ! pid))\<rparr>],
             requests := requests w @ [GET (poll_url (polls w ! pid))]\<rparr>"
proof -
  have p: "(polls w ! pid)\<lparr>attempt := Suc (attempt (polls w ! pid)), phase := Awaiting_Fetch\<rparr> =
           (polls w ! pid)\<lparr>attempt := Suc (attempt (polls w ! pid))\<rparr>"
    using assms(2) by (cases "polls w ! pid") simp
  show ?thesis
    using assms by (simp add: poll_reply_def timer_fired_def Let_def p)
qed

lemma poll_rounds:
  assumes "pid < length (polls w)" and "phase (polls w ! pid) = Awaiting_Fetch"
    and "attempt (polls w ! pid) + length bs < poll_budget"
  shows "run e (not_ready_rounds pid bs) w =
           w\<lparr>polls := (polls w)[pid := (polls w ! pid)\<lparr>attempt := attempt (polls w ! pid) + length bs\<rparr>],
             requests := requests w @ replicate (length bs) (GET (poll_url (polls w ! pid)))\<rparr>"
  using assms
proof (induction bs arbitrary: w)
  case Nil
  show ?case by (simp add: not_ready_rounds_def)
next
  case (Cons b bs)
  let ?w1 = "w\<lparr>polls := (polls w)[pid := (polls w ! pid)\<lparr>attempt := Suc (attempt (polls w ! pid))\<rparr>],
                requests := requests w @ [GET (poll_url (polls w ! pid))]\<rparr>"
  have s: "Suc (attempt (polls w ! pid)) < poll_budget" using Cons.prems(3) by simp
  have r: "run e (not_ready_rounds pid (b # bs)) w = run e (not_ready_rounds pid bs) ?w1"
    using poll_round [OF Cons.prems(1,2) s, of e b] by (simp add: not_ready_rounds_def)
  have a: "pid < length (polls ?w1)" using Cons.prems(1) by simp
  have b: "phase (polls ?w1 ! pid) = Awaiting_Fetch" using Cons.prems(1,2) by simp
  have c: "attempt (polls ?w1 ! pid) + length bs < poll_budget" using Cons.prems(1,3) by simp
  show ?case
    unfolding r Cons.IH [OF a b c] using Cons.prems(1)
    by (simp add: replicate_append_same)
qed

lemma poll_reply_success:
  assumes "pid < length (polls w)" and "phase (polls w ! pid) = Awaiting_Fetch"
    and "ok st" and "st \<noteq> 202" and "JSON_parse e body = Inr R"
  shows "poll_reply e pid (Fetch_Response st body) w =
           w\<lparr>polls := (polls w)[pid := (polls w ! pid)\<lparr>phase := Finished\<rparr>], resp := R,
             loading := False, streaming := False\<rparr>"
  using assms by (simp add: poll_reply_def done_settled_def finish_poll_def)

lemma poll_last_round:
  assumes "pid < length (polls w)" and "phase (polls w ! pid) = Awaiting_Fetch"
    and "Suc (attempt (polls w ! pid)) = poll_budget"
  shows "timer_fired pid (poll_reply e pid (Fetch_Response 202 b) w) =
           w\<lparr>polls := (polls w)[pid := (polls w ! pid)\<lparr>phase := Finished\<rparr>],
             error := Some ''Timed out waiting for result'', loading := False, streaming := False\<rparr>"
  using assms by (simp add: poll_reply_def timer_fired_def Let_def done_settled_def finish_poll_def message_or_def)

text \<open>
  C2. \<open>fetchFinal\<close> is called and the service answers 202, 202 and then a success
  status (in 200..299, not 202) whose body decodes to \<open>R\<close>. After the two 202 replies
  three requests have been issued and \<^verbatim>\<open>resp\<close> is untouched; the third reply records
  \<open>R\<close> in \<^verbatim>\<open>resp\<close> without a fourth request, sets no error, and ends the call:
  no later reply or timer of this call changes anything.
\<close>

theorem fetchFinal_success_on_third:
  assumes "ok st" and "st \<noteq> 202" and "JSON_parse e body = Inr R"
  shows "let url = buildUrl (URL_resolve e) (apiBase e) (''api/result/'' @ rid);
             pid = length (polls w0);
             w2 = run e [Poll_Reply pid (Fetch_Response 202 b1), Timer_Fired pid,
                         Poll_Reply pid (Fetch_Response 202 b2), Timer_Fired pid] (fetchFinal e rid w0);
             w3 = step e (Poll_Reply pid (Fetch_Response st body)) w2
         in resp w2 = resp w0 \<and> requests w2 = requests w0 @ [GET url, GET url, GET url] \<and>
            resp w3 = R \<and> requests w3 = requests w0 @ [GET url, GET url, GET url] \<and>
            polls w3 = polls w0 @ [\<lparr>poll_url = url, attempt = 2, phase = Finished\<rparr>] \<and>
            error w3 = error w0 \<and> \<not> loading w3 \<and> \<not> streaming w3 \<and>
            (\<forall>r. step e (Poll_Reply pid r) w3 = w3) \<and> step e (Timer_Fired pid) w3 = w3"
proof -
  define url where "url = buildUrl (URL_resolve e) (apiBase e) (''api/result/'' @ rid)"
  define pid where "pid = length (polls w0)"
  define w1 where "w1 = fetchFinal e rid w0"
  define w2 where "w2 = run e (not_ready_rounds pid [b1, b2]) w1"
  define w3 where "w3 = step e (Poll_Reply pid (Fetch_Response st body)) w2"
  have p1: "polls w1 = polls w0 @ [\<lparr>poll_url = url, attempt = 0, phase = Awaiting_Fetch\<rparr>]"
    and r1: "requests w1 = requests w0 @ [GET url]"
    by (simp_all add: w1_def url_def)
  have a: "pid < length (polls w1)" and b: "phase (polls w1 ! pid) = Awaiting_Fetch"
    and c: "attempt (polls w1 ! pid) + length [b1, b2] < poll_budget"
    and u: "poll_url (polls w1 ! pid) = url" and at: "attempt (polls w1 ! pid) = 0"
    by (simp_all add: p1 pid_def poll_budget_def)
  have w2_eq: "w2 = w1\<lparr>polls := (polls w1)[pid := (polls w1 ! pid)\<lparr>attempt := 2\<rparr>],
                       requests := requests w1 @ [GET url, GET url]\<rparr>"
    unfolding w2_def poll_rounds [OF a b c] u at by (simp add: numeral_2_eq_2)
  have p2: "polls w2 = polls w0 @ [\<lparr>poll_url = url, attempt = 2, phase = Awaiting_Fetch\<rparr>]"
    unfolding w2_eq by (simp add: p1 pid_def)
  have r2: "requests w2 = requests w0 @ [GET url, GET url, GET url]"
    unfolding w2_eq by (simp add: r1)
  have f2: "resp w2 = resp w0" "error w2 = error w0"
    unfolding w2_eq by (simp_all add: w1_def)
  have a2: "pid < length (polls w2)" and b2: "phase (polls w2 ! pid) = Awaiting_Fetch"
    by (simp_all add: p2 pid_def)
  have w3_eq: "w3 = w2\<lparr>polls := (polls w2)[pid := (polls w2 ! pid)\<lparr>phase := Finished\<rparr>], resp := R,
                       loading := False, streaming := False\<rparr>"
    unfolding w3_def step.simps by (rule poll_reply_success [OF a2 b2 assms])
  have p3: "polls w3 = polls w0 @ [\<lparr>poll_url = url, attempt = 2, phase = Finished\<rparr>]"
    unfolding w3_eq by (simp add: p2 pid_def)
  have fin: "\<not> (pid < length (polls w3) \<and> phase (polls w3 ! pid) = Awaiting_Fetch)"
    "\<not> (pid < length (polls w3) \<and> phase (polls w3 ! pid) = Awaiting_Timer)"
    by (simp_all add: p3 pid_def)
  have n1: "\<forall>r. step e (Poll_Reply pid r) w3 = w3"
    by (simp add: poll_reply_finished [OF fin(1)])
  have n2: "step e (Timer_Fired pid) w3 = w3"
    by (simp add: timer_fired_finished [OF fin(2)])
  have f3: "resp w3 = R" "requests w3 = requests w0 @ [GET url, GET url, GET url]" "error w3 = error w0"
    "\<not> loading w3" "\<not> streaming w3"
    unfolding w3_eq by (simp_all add: r2 f2)
  have w2_run: "w2 = run e [Poll_Reply pid (Fetch_Response 202 b1), Timer_Fired pid,
                         Poll_Reply pid (Fetch_Response 202 b2), Timer_Fired pid] (fetchFinal e rid w0)"
    by (simp add: w2_def w1_def not_ready_rounds_def)
  show ?thesis
    unfolding Let_def url_def [symmetric] pid_def [symmetric] w2_run [symmetric] w3_def [symmetric]
    using f2(1) r2 f3 p3 n1 n2 by blast
qed

theorem fetchFinal_success_on_third_witness:
  "ok 200 \<and>
   resp (run sample_env [Poll_Reply 0 (Fetch_Response 202 []), Timer_Fired 0,
                         Poll_Reply 0 (Fetch_Response 202 []), Timer_Fired 0,
                         Poll_Reply 0 (Fetch_Response 200 ''{\"status\":\"COMPLETED\"}'')]
          (fetchFinal sample_env ''r1'' streaming_world)) = JObj [(''status'', JStr ''COMPLETED'')] \<and>
   requests (run sample_env [Poll_Reply 0 (Fetch_Response 202 []), Timer_Fired 0,
                         Poll_Reply 0 (Fetch_Response 202 []), Timer_Fired 0,
                         Poll_Reply 0 (Fetch_Response 200 ''{\"status\":\"COMPLETED\"}'')]
          (fetchFinal sample_env ''r1'' streaming_world)) =
     requests streaming_world @ [GET ''/api/result/r1'', GET ''/api/result/r1'', GET ''/api/result/r1'']"
proof -
  have h1: "ok 200" by (simp add: ok_def)
  have h2: "(200::nat) \<noteq> 202" by simp
  have h3: "JSON_parse sample_env ''{\"status\":\"COMPLETED\"}'' = Inr (JObj [(''status'', JStr ''COMPLETED'')])"
    by (simp add: sample_env_def)
  have l: "length (polls streaming_world) = 0" by code_simp
  have u: "buildUrl (URL_resolve sample_env) (apiBase sample_env) (''api/result/'' @ ''r1'') = ''/api/result/r1''"
    by code_simp
  note t = fetchFinal_success_on_third [OF h1 h2 h3, of "''r1''" streaming_world "[]" "[]",
      unfolded Let_def l u]
  note t3 = t [THEN conjunct2, THEN conjunct2, THEN conjunct1]
  note t4 = t [THEN conjunct2, THEN conjunct2, THEN conjunct2, THEN conjunct1]
  show ?thesis using h1 t3 t4 by simp
qed

lemma not_ready_rounds_snoc:
  "not_ready_rounds pid (bs @ [b]) =
     not_ready_rounds pid bs @ [Poll_Reply pid (Fetch_Response 202 b), Timer_Fired pid]"
  by (simp add: not_ready_rounds_def)

text \<open>
  C5. \<open>fetchFinal\<close> is called and each of the 120 replies of the budget is a 202,
  followed by the firing of the timer the loop awaits. The call then ends with the error
  \<^verbatim>\<open>Timed out waiting for result\<close>, which the \<^verbatim>\<open>done\<close> listener records:
  120 requests were issued, \<^verbatim>\<open>resp\<close> is untouched, \<^verbatim>\<open>loading\<close> and
  \<^verbatim>\<open>streaming\<close> are cleared, and the call awaits neither a reply nor a timer, so no
  later reply or timer of this call changes anything.
\<close>

theorem fetchFinal_times_out:
  assumes "length bodies = poll_budget"
  shows "let url = buildUrl (URL_resolve e) (apiBase e) (''api/result/'' @ rid);
             pid = length (polls w0);
             w' = run e (not_ready_rounds pid bodies) (fetchFinal e rid w0)
         in error w' = Some ''Timed out waiting for result'' \<and>
            requests w' = requests w0 @ replicate poll_budget (GET url) \<and>
            polls w' = polls w0 @ [\<lparr>poll_url = url, attempt = poll_budget - 1, phase = Finished\<rparr>] \<and>
            resp w' = resp w0 \<and> \<not> loading w' \<and> \<not> streaming w' \<and>
            (\<forall>r. step e (Poll_Reply pid r) w' = w') \<and> step e (Timer_Fired pid) w' = w'"
proof -
  define url where "url = buildUrl (URL_resolve e) (apiBase e) (''api/result/'' @ rid)"
  define pid where "pid = length (polls w0)"
  define w1 where "w1 = fetchFinal e rid w0"
  define bs where "bs = butlast bodies"
  define b where "b = last bodies"
  have ne: "bodies \<noteq> []" using assms by (auto simp: poll_budget_def)
  have split: "bodies = bs @ [b]" using ne by (simp add: bs_def b_def)
  have lbs: "Suc (length bs) = poll_budget" using assms split by simp
  define w2 where "w2 = run e (not_ready_rounds pid bs) w1"
  define w3 where "w3 = run e (not_ready_rounds pid bodies) w1"
  have p1: "polls w1 = polls w0 @ [\<lparr>poll_url = url, attempt = 0, phase = Awaiting_Fetch\<rparr>]"
    and r1: "requests w1 = requests w0 @ [GET url]"
    by (simp_all add: w1_def url_def)
  have a: "pid < length (polls w1)" and ph: "phase (polls w1 ! pid) = Awaiting_Fetch"
    and u: "poll_url (polls w1 ! pid) = url" and at: "attempt (polls w1 ! pid) = 0"
    by (simp_all add: p1 pid_def)
  have c: "attempt (polls w1 ! pid) + length bs < poll_budget" using lbs at by simp
  have w2_eq: "w2 = w1\<lparr>polls := (polls w1)[pid := (polls w1 ! pid)\<lparr>attempt := length bs\<rparr>],
                       requests := requests w1 @ replicate (length bs) (GET url)\<rparr>"
    unfolding w2_def poll_rounds [OF a ph c] u at by simp
  have p2: "polls w2 = polls w0 @ [\<lparr>poll_url = url, attempt = length bs, phase = Awaiting_Fetch\<rparr>]"
    unfolding w2_eq by (simp add: p1 pid_def)
  have r2: "requests w2 = requests w0 @ replicate poll_budget (GET url)"
    unfolding w2_eq r1 lbs [symmetric] by simp
  have f2: "resp w2 = resp w0"
    unfolding w2_eq by (simp add: w1_def)
  have a2: "pid < length (polls w2)" and b2: "phase (polls w2 ! pid) = Awaiting_Fetch"
    and c2: "Suc (attempt (polls w2 ! pid)) = poll_budget"
    by (simp_all add: p2 pid_def lbs)
  have "w3 = timer_fired pid (poll_reply e pid (Fetch_Response 202 b) w2)"
    unfolding w3_def w2_def split not_ready_rounds_snoc run_append by simp
  then have w3_eq: "w3 = w2\<lparr>polls := (polls w2)[pid := (polls w2 ! pid)\<lparr>phase := Finished\<rparr>],
             error := Some ''Timed out waiting for result'', loading := False, streaming := False\<rparr>"
    unfolding poll_last_round [OF a2 b2 c2] .
  have p3: "polls w3 = polls w0 @ [\<lparr>poll_url = url, attempt = poll_budget - 1, phase = Finished\<rparr>]"
    unfolding w3_eq lbs [symmetric] by (simp add: p2 pid_def)
  have fin: "\<not> (pid < length (polls w3) \<and> phase (polls w3 ! pid) = Awaiting_Fetch)"
    "\<not> (pid < length (polls w3) \<and> phase (polls w3 ! pid) = Awaiting_Timer)"
    by (simp_all add: p3 pid_def)
  have n1: "\<forall>r. step e (Poll_Reply pid r) w3 = w3"
    by (simp add: poll_reply_finished [OF fin(1)])
  have n2: "step e (Timer_Fired pid) w3 = w3"
    by (simp add: timer_fired_finished [OF fin(2)])
  have f3: "error w3 = Some ''Timed out waiting for result''" "requests w3 = requests w0 @ replicate poll_budget (GET url)"
    "resp w3 = resp w0" "\<not> loading w3" "\<not> streaming w3"
    unfolding w3_eq by (simp_all add: r2 f2)
  show ?thesis
    unfolding Let_def url_def [symmetric] pid_def [symmetric] w1_def [symmetric] w3_def [symmetric]
    using f3 p3 n1 n2 by blast
qed

theorem fetchFinal_times_out_witness:
  "length (replicate 120 ([] :: string)) = poll_budget \<and>
   error (run sample_env (not_ready_rounds 0 (replicate 120 [])) (fetchFinal sample_env ''r1'' streaming_world)) =
     Some ''Timed out waiting for result'' \<and>
   length (requests (run sample_env (not_ready_rounds 0 (replicate 120 [])) (fetchFinal sample_env ''r1'' streaming_world))) =
     length (requests streaming_world) + 120"
proof -
  have h: "length (replicate 120 ([] :: string)) = poll_budget" by (simp add: poll_budget_def)
  have l: "length (polls streaming_world) = 0" by code_simp
  note t = fetchFinal_times_out [OF h, of sample_env "''r1''" streaming_world, unfolded Let_def l]
  note t1 = t [THEN conjunct1]
  note t2 = t [THEN conjunct2, THEN conjunct1]
  show ?thesis unfolding t1 t2 using h by (simp add: poll_budget_def)
qed

subsection \<open>The reply to the start request\<close>

lemma close_current_fields [simp]:
  "esRef (close_current w) = None"
  "error (close_current w) = error w"
  "resp (close_current w) = resp w"
  "runId (close_current w) = runId w"
  "loading (close_current w) = loading w"
  "streaming (close_current w) = streaming w"
  "polls (close_current w) = polls w"
  "requests (close_current w) = requests w"
  "pending_start (close_current w) = pending_start w"
  "length (sources (close_current w)) = length (sources w)"
  by (cases "esRef w"; simp add: close_current_def close_source_def)+

lemma start_failed_fields [simp]:
  "esRef (start_failed m w) = None"
  "error (start_failed m w) = Some (message_or m ''Request failed'')"
  "resp (start_failed m w) = resp w"
  "runId (start_failed m w) = runId w"
  "loading (start_failed m w) = False"
  "streaming (start_failed m w) = False"
  "polls (start_failed m w) = polls w"
  "requests (start_failed m w) = requests w"
  "pending_start (start_failed m w) = pending_start w"
  "length (sources (start_failed m w)) = length (sources w)"
  by (simp_all add: start_failed_def)

lemma start_reply_ok:
  assumes "sid < length (pending_start w)" and "pending_start w ! sid" and "ok st"
  shows "start_reply e sid (Fetch_Response st body) w =
     (case JSON_parse e body of
        Inl m \<Rightarrow> start_failed m (w\<lparr>pending_start := (pending_start w)[sid := False]\<rparr>)
      | Inr v \<Rightarrow>
          (case destructure_run_id v of
             Inl m \<Rightarrow> start_failed m (w\<lparr>pending_start := (pending_start w)[sid := False]\<rparr>)
           | Inr rid \<Rightarrow> attach e rid (w\<lparr>pending_start := (pending_start w)[sid := False], runId := rid\<rparr>)))"
  using assms by (simp add: start_reply_def Let_def)

text \<open>
  C3, as the code has it. The start request was answered with a success status. When
  the body does not decode as JSON, or decodes to \<^verbatim>\<open>null\<close>, the submission fails:
  the error is recorded, \<^verbatim>\<open>loading\<close> and \<^verbatim>\<open>streaming\<close> are cleared and no stream
  is opened. When the body decodes to a value without a \<^verbatim>\<open>run_id\<close>, the submission
  does not fail: no error is recorded, \<^verbatim>\<open>runId\<close> is \<^verbatim>\<open>undefined\<close> and the stream
  \<^verbatim>\<open>api/stream/undefined\<close> is opened. A \<^verbatim>\<open>run_id\<close> that is a string is stored and
  its stream opened. (Both provided the \<^verbatim>\<open>EventSource\<close> constructor accepts the
  URL. Nothing is said about a \<^verbatim>\<open>run_id\<close> of another type.)
\<close>

theorem start_reply_success_status:
  assumes "sid < length (pending_start w)" and "pending_start w ! sid" and "ok st"
  shows "(\<forall>m. JSON_parse e body = Inl m \<longrightarrow>
            (let w' = start_reply e sid (Fetch_Response st body) w
             in error w' = Some (message_or m ''Request failed'') \<and> \<not> loading w' \<and> \<not> streaming w' \<and>
                esRef w' = None \<and> length (sources w') = length (sources w))) \<and>
         (JSON_parse e body = Inr JNull \<longrightarrow>
            (let w' = start_reply e sid (Fetch_Response st body) w
             in error w' \<noteq> None \<and> \<not> loading w' \<and> \<not> streaming w' \<and>
                esRef w' = None \<and> length (sources w') = length (sources w))) \<and>
         (\<forall>v. JSON_parse e body = Inr v \<and> v \<noteq> JNull \<and> v \<noteq> JUndefined \<and>
               opt_field v ''run_id'' = JUndefined \<and>
               EventSource_throws e (buildUrl (URL_resolve e) (apiBase e) ''api/stream/undefined'') = None \<longrightarrow>
            (let w' = start_reply e sid (Fetch_Response st body) w
             in error w' = error w \<and> loading w' = loading w \<and> streaming w' = streaming w \<and>
                runId w' = JUndefined \<and> esRef w' = Some (length (sources w)) \<and>
                sources w' = sources w @
                  [\<lparr>es_url = buildUrl (URL_resolve e) (apiBase e) ''api/stream/undefined'',
                    es_run_id = JUndefined, es_closed = False\<rparr>])) \<and>
         (\<forall>v s. JSON_parse e body = Inr v \<and> opt_field v ''run_id'' = JStr s \<and>
               EventSource_throws e (buildUrl (URL_resolve e) (apiBase e) (''api/stream/'' @ s)) = None \<longrightarrow>
            (let w' = start_reply e sid (Fetch_Response st body) w
             in error w' = error w \<and> loading w' = loading w \<and> streaming w' = streaming w \<and>
                runId w' = JStr s \<and> esRef w' = Some (length (sources w)) \<and>
                sources w' = sources w @
                  [\<lparr>es_url = buildUrl (URL_resolve e) (apiBase e) (''api/stream/'' @ s),
                    es_run_id = JStr s, es_closed = False\<rparr>]))"
proof (intro conjI allI impI)
  fix m assume "JSON_parse e body = Inl m"
  then show "let w' = start_reply e sid (Fetch_Response st body) w
             in error w' = Some (message_or m ''Request failed'') \<and> \<not> loading w' \<and> \<not> streaming w' \<and>
                esRef w' = None \<and> length (sources w') = length (sources w)"
    by (simp add: start_reply_ok [OF assms] Let_def)
next
  assume "JSON_parse e body = Inr JNull"
  then show "let w' = start_reply e sid (Fetch_Response st body) w
             in error w' \<noteq> None \<and> \<not> loading w' \<and> \<not> streaming w' \<and>
                esRef w' = None \<and> length (sources w') = length (sources w)"
    by (simp add: start_reply_ok [OF assms] Let_def destructure_run_id_def)
next
  fix v
  assume h: "JSON_parse e body = Inr v \<and> v \<noteq> JNull \<and> v \<noteq> JUndefined \<and>
               opt_field v ''run_id'' = JUndefined \<and>
               EventSource_throws e (buildUrl (URL_resolve e) (apiBase e) ''api/stream/undefined'') = None"
  then show "let w' = start_reply e sid (Fetch_Response st body) w
             in error w' = error w \<and> loading w' = loading w \<and> streaming w' = streaming w \<and>
                runId w' = JUndefined \<and> esRef w' = Some (length (sources w)) \<and>
                sources w' = sources w @
                  [\<lparr>es_url = buildUrl (URL_resolve e) (apiBase e) ''api/stream/undefined'',
                    es_run_id = JUndefined, es_closed = False\<rparr>]"
    by (simp add: start_reply_ok [OF assms] Let_def destructure_run_id_def attach_def)
next
  fix v s
  assume h: "JSON_parse e body = Inr v \<and> opt_field v ''run_id'' = JStr s \<and>
               EventSource_throws e (buildUrl (URL_resolve e) (apiBase e) (''api/stream/'' @ s)) = None"
  then have nn: "v \<noteq> JNull" "v \<noteq> JUndefined" by auto
  from h nn show "let w' = start_reply e sid (Fetch_Response st body) w
             in error w' = error w \<and> loading w' = loading w \<and> streaming w' = streaming w \<and>
                runId w' = JStr s \<and> esRef w' = Some (length (sources w)) \<and>
                sources w' = sources w @
                  [\<lparr>es_url = buildUrl (URL_resolve e) (apiBase e) (''api/stream/'' @ s),
                    es_run_id = JStr s, es_closed = False\<rparr>]"
    by (simp add: start_reply_ok [OF assms] Let_def destructure_run_id_def attach_def)
qed

text \<open>
  The claim as stated fails: after a 200 reply whose body \<^verbatim>\<open>{}\<close> has no
  \<^verbatim>\<open>run_id\<close>, no error is recorded, a stream for the id \<^verbatim>\<open>undefined\<close> is attached
  and its messages are traced.
\<close>

theorem submit_without_run_id_counterexample:
  "ok 200 \<and> JSON_parse sample_env ''{}'' = Inr (JObj []) \<and>
   error started_without_run_id = None \<and> runId started_without_run_id = JUndefined \<and>
   esRef started_without_run_id = Some 0 \<and> loading started_without_run_id \<and> streaming started_without_run_id \<and>
   sources started_without_run_id = [\<lparr>es_url = ''/api/stream/undefined'', es_run_id = JUndefined, es_closed = False\<rparr>] \<and>
   map type (traces (step sample_env (Stream_Message 0 ''ready'' []) started_without_run_id)) = [T_ready]"
  by code_simp

theorem start_reply_success_status_witness:
  "runId (run sample_env [Set_Task ''Summarize X'', Click_Run, Start_Reply 0 (Fetch_Response 200 ''{}'')] initial_world) = JUndefined \<and>
   error (run sample_env [Set_Task ''Summarize X'', Click_Run, Start_Reply 0 (Fetch_Response 200 ''null'')] initial_world) \<noteq> None \<and>
   runId (run sample_env [Set_Task ''Summarize X'', Click_Run,
            Start_Reply 0 (Fetch_Response 200 ''{\"run_id\":\"r1\"}'')] initial_world) = JStr ''r1''"
proof -
  define w where "w = run sample_env [Set_Task ''Summarize X'', Click_Run] initial_world"
  have a: "0 < length (pending_start w)" and b: "pending_start w ! 0" unfolding w_def by code_simp+
  have c: "ok 200" by (simp add: ok_def)
  have p1: "JSON_parse sample_env ''{}'' = Inr (JObj []) \<and> JObj [] \<noteq> JNull \<and> JObj [] \<noteq> JUndefined \<and>
            opt_field (JObj []) ''run_id'' = JUndefined \<and>
            EventSource_throws sample_env (buildUrl (URL_resolve sample_env) (apiBase sample_env)
                 ''api/stream/undefined'') = None"
    by (simp add: sample_env_def)
  have p2: "JSON_parse sample_env ''null'' = Inr JNull" by (simp add: sample_env_def)
  have p3: "JSON_parse sample_env ''{\"run_id\":\"r1\"}'' = Inr (JObj [(''run_id'', JStr ''r1'')]) \<and>
            opt_field (JObj [(''run_id'', JStr ''r1'')]) ''run_id'' = JStr ''r1'' \<and>
            EventSource_throws sample_env (buildUrl (URL_resolve sample_env) (apiBase sample_env)
                 (''api/stream/'' @ ''r1'')) = None"
    by (simp add: sample_env_def)
  note t1 = start_reply_success_status [OF a b c, of sample_env "''{}''", THEN conjunct2, THEN conjunct2,
      THEN conjunct1, THEN spec, of "JObj []", THEN mp, OF p1, unfolded Let_def]
  note t2 = start_reply_success_status [OF a b c, of sample_env "''null''", THEN conjunct2, THEN conjunct1,
      THEN mp, OF p2, unfolded Let_def]
  note t3 = start_reply_success_status [OF a b c, of sample_env "''{\"run_id\":\"r1\"}''", THEN conjunct2,
      THEN conjunct2, THEN conjunct2, THEN spec, of "JObj [(''run_id'', JStr ''r1'')]", THEN spec, of "''r1''",
      THEN mp, OF p3, unfolded Let_def]
  have r1: "run sample_env [Set_Task ''Summarize X'', Click_Run, Start_Reply 0 (Fetch_Response 200 ''{}'')] initial_world =
        start_reply sample_env 0 (Fetch_Response 200 ''{}'') w"
    and r2: "run sample_env [Set_Task ''Summarize X'', Click_Run, Start_Reply 0 (Fetch_Response 200 ''null'')] initial_world =
        start_reply sample_env 0 (Fetch_Response 200 ''null'') w"
    and r3: "run sample_env [Set_Task ''Summarize X'', Click_Run,
            Start_Reply 0 (Fetch_Response 200 ''{\"run_id\":\"r1\"}'')] initial_world =
        start_reply sample_env 0 (Fetch_Response 200 ''{\"run_id\":\"r1\"}'') w"
    by (simp_all add: w_def)
  show ?thesis unfolding r1 r2 r3 using t1 t2 t3 by simp
qed

subsection \<open>Overlapping runs\<close>





lemma live_close_current [simp]:
  "live_starts (close_current w) = live_starts w" "live_polls (close_current w) = live_polls w"
  by (cases "esRef w"; simp add: close_current_def live_starts_def live_polls_def)+


lemmas live_defs = live_starts_def live_sources_def live_polls_def in_flight_def



lemma sf_addTrace [simp]: "single_flight (addTrace e t w) = single_flight w"
  by (simp add: single_flight_def live_defs)





















lemma polls_kept_refl [simp]: "polls_kept ps ps"
  by (simp add: polls_kept_def)

lemma polls_kept_append [simp]: "polls_kept ps (ps @ xs)"
  by (simp add: polls_kept_def nth_append)



lemma sources_kept_refl [simp]: "sources_kept ss ss"
  by (simp add: sources_kept_def)

lemma sources_kept_append [simp]: "sources_kept ss (ss @ xs)"
  by (simp add: sources_kept_def nth_append)

lemma sources_kept_close [simp]: "sources_kept ss (close_source i ss)"
  by (auto simp: sources_kept_def close_source_def nth_list_update)


lemma settled_in_refl [simp]: "settled_in w w"
  by (simp add: settled_in_def)






lemma polls_sources_cells [simp]:
  "polls (w\<lparr>pending_start := ps\<rparr>) = polls w" "sources (w\<lparr>pending_start := ps\<rparr>) = sources w"
  "polls (w\<lparr>runId := r\<rparr>) = polls w" "sources (w\<lparr>runId := r\<rparr>) = sources w"
  by simp_all





lemma settled_done_settled:
  "polls_kept ps (polls w) \<Longrightarrow> sources_kept ss (sources w) \<Longrightarrow>
     polls_kept ps (polls (done_settled r w)) \<and> sources_kept ss (sources (done_settled r w))"
  by (cases r) (simp_all add: done_settled_def)










end
